theory Spec2Isabelle
  imports Main
begin

section \<open>Resilient request executor: \<open>NetworkManager\<close>\<close>

text \<open>
  The executor of \<open>src/client/AuthManager.js\<close> (second module of the file, class
  \<open>NetworkManager\<close>). Its mutable fields are the record below; the constructor sets
  \<open>requestCount = 0\<close>, \<open>lastRequestTime = 0\<close> and the three settings from
  \<open>Protocol\<close> (1000, 3, 2000).
\<close>

record network_manager =
  requestCount :: nat
  lastRequestTime :: int
  rateLimitDelay :: int
  maxRetries :: nat
  retryDelay :: int

definition new_NetworkManager :: network_manager where
  "new_NetworkManager =
     \<lparr>requestCount = 0, lastRequestTime = 0, rateLimitDelay = 1000, maxRetries = 3,
      retryDelay = 2000\<rparr>"

text \<open>
  What the network does to one attempt: it answers with an HTTP status, or the socket
  fails with a Node error code (\<open>ECONNRESET\<close>, \<open>ETIMEDOUT\<close>, ...). The environment of
  one logical request gives this outcome and the duration of the exchange (in ms) for
  every attempt number.
\<close>

datatype wire = Replied nat | Failed string

record env =
  wire_of :: "nat \<Rightarrow> wire"
  latency :: "nat \<Rightarrow> nat"

text \<open>
  Errors caught by the retry loop. An error rejected by axios carries \<open>error.code\<close> and,
  when a response arrived, \<open>error.response.status\<close>. The error thrown by
  \<open>_handleResponse\<close> is the \<open>NetworkError\<close> built by \<open>_createHttpError\<close>: its status
  lives in \<open>details.statusCode\<close>; it has neither a \<open>code\<close> nor a \<open>response\<close> property.
\<close>

datatype request_error =
    AxiosError "string option" "nat option"
  | HttpError nat

fun err_code :: "request_error \<Rightarrow> string option" where
  "err_code (AxiosError c r) = c"
| "err_code (HttpError st) = None"

fun err_response_status :: "request_error \<Rightarrow> nat option" where
  "err_response_status (AxiosError c r) = r"
| "err_response_status (HttpError st) = None"

datatype 'a settled = Resolved 'a | Rejected request_error

text \<open>The instance is created with \<open>validateStatus: (status) => status < 500\<close>.\<close>

definition validateStatus :: "nat \<Rightarrow> bool" where
  "validateStatus status \<longleftrightarrow> status < 500"

text \<open>
  \<open>this.axios.request(config)\<close>: a reply that passes \<open>validateStatus\<close> resolves; any
  other reply rejects with an error holding the response (its \<open>code\<close> is axios's
  \<open>ERR_BAD_RESPONSE\<close>); a socket failure rejects with the socket's code and no response.
\<close>

fun axios_request :: "wire \<Rightarrow> nat settled" where
  "axios_request (Replied status) =
     (if validateStatus status then Resolved status
      else Rejected (AxiosError (Some ''ERR_BAD_RESPONSE'') (Some status)))"
| "axios_request (Failed code) = Rejected (AxiosError (Some code) None)"

record request_options =
  followRedirect :: "bool option"

definition handleResponse :: "nat \<Rightarrow> request_options \<Rightarrow> request_error + nat" where
  "handleResponse status options =
     (if followRedirect options = Some False \<and> 300 \<le> status \<and> status < 400 then Inr status
      else if 400 \<le> status then Inl (HttpError status)
      else Inr status)"

definition shouldRetry :: "network_manager \<Rightarrow> request_error \<Rightarrow> nat \<Rightarrow> bool" where
  "shouldRetry this error attempt =
     (if maxRetries this \<le> attempt then False
      else if err_code error = Some ''ECONNRESET'' \<or> err_code error = Some ''ECONNREFUSED'' \<or>
              err_code error = Some ''ENOTFOUND'' \<or> err_code error = Some ''ETIMEDOUT'' then True
      else if (case err_response_status error of Some st \<Rightarrow> 500 \<le> st | None \<Rightarrow> False) then True
      else if (case err_response_status error of Some st \<Rightarrow> st = 429 | None \<Rightarrow> False) then True
      else if (case err_response_status error of Some st \<Rightarrow> 400 \<le> st \<and> st < 500 | None \<Rightarrow> False)
        then False
      else False)"

text \<open>
  \<open>_wait(ms)\<close> suspends on \<open>setTimeout(resolve, ms)\<close>. Timers are taken to fire exactly
  at their deadline. Node runs a timer whose delay is below 1 or above \<open>TIMEOUT_MAX\<close>, the
  largest 32-bit signed integer, with a delay of 1.
\<close>

definition TIMEOUT_MAX :: int where
  "TIMEOUT_MAX = 2147483647"

definition timer_delay :: "int \<Rightarrow> int" where
  "timer_delay ms = (if ms < 1 \<or> TIMEOUT_MAX < ms then 1 else ms)"

definition wait :: "int \<Rightarrow> int \<Rightarrow> int" where
  "wait ms clock = clock + timer_delay ms"

text \<open>
  The observable trace of a logical request: the suspensions with the delay they asked
  for, and every dispatched attempt with its number and its start time.
\<close>

datatype net_event = RateLimitWait int | Dispatch nat int | BackoffWait int

definition applyRateLimit :: "int \<Rightarrow> network_manager \<Rightarrow> int \<times> net_event list" where
  "applyRateLimit now this =
     (let timeSinceLastRequest = now - lastRequestTime this in
      if timeSinceLastRequest < rateLimitDelay this then
        (let waitTime = rateLimitDelay this - timeSinceLastRequest
         in (wait waitTime now, [RateLimitWait waitTime]))
      else (now, []))"

definition updateRequestTracking :: "int \<Rightarrow> network_manager \<Rightarrow> network_manager" where
  "updateRequestTracking now this = this\<lparr>lastRequestTime := now\<rparr>"

text \<open>
  The body of the \<open>try\<close> block of one attempt, finishing at time \<open>done\<close>: the request,
  then the tracking update, then \<open>_handleResponse\<close>. A rejected request skips the rest.
\<close>

definition try_attempt ::
  "env \<Rightarrow> request_options \<Rightarrow> nat \<Rightarrow> int \<Rightarrow> network_manager \<Rightarrow>
   network_manager \<times> (request_error + nat)" where
  "try_attempt e options attempt done this =
     (case axios_request (wire_of e attempt) of
        Rejected error \<Rightarrow> (this, Inl error)
      | Resolved status \<Rightarrow> (updateRequestTracking done this, handleResponse status options))"

lemma try_attempt_maxRetries [simp]:
  "maxRetries (fst (try_attempt e options attempt done this)) = maxRetries this"
  by (simp add: try_attempt_def updateRequestTracking_def split: settled.splits)

text \<open>
  The \<open>for\<close> loop of \<open>_makeRequest\<close>, from attempt number \<open>attempt\<close> at time \<open>clock\<close>.
  It returns the manager, the time, the trace, and either the response or the value of
  \<open>lastError\<close> when the loop is left without a response.
\<close>

function attempt_loop ::
  "env \<Rightarrow> request_options \<Rightarrow> nat \<Rightarrow> int \<Rightarrow> request_error option \<Rightarrow> network_manager \<Rightarrow>
   network_manager \<times> int \<times> net_event list \<times> (request_error option + nat)" where
  "attempt_loop e options attempt clock lastError this =
     (if attempt \<le> maxRetries this then
        (let done = clock + int (latency e attempt);
             this' = fst (try_attempt e options attempt done this)
         in case snd (try_attempt e options attempt done this) of
              Inr response \<Rightarrow> (this', done, [Dispatch attempt clock], Inr response)
            | Inl error \<Rightarrow>
                if shouldRetry this' error attempt then
                  (let backoff = (if attempt < maxRetries this'
                                  then [BackoffWait (retryDelay this' * int attempt)] else []);
                       clock' = (if attempt < maxRetries this'
                                 then wait (retryDelay this' * int attempt) done else done);
                       rest = attempt_loop e options (attempt + 1) clock' (Some error) this'
                   in (fst rest, fst (snd rest),
                       Dispatch attempt clock # backoff @ fst (snd (snd rest)),
                       snd (snd (snd rest))))
                else (this', done, [Dispatch attempt clock], Inl (Some error)))
      else (this, clock, [], Inl lastError))"
  by pat_completeness auto
termination
  by (relation "measure (\<lambda>(e, options, attempt, clock, lastError, this).
        Suc (maxRetries this) - attempt)") (auto simp: shouldRetry_def split: if_splits)

declare attempt_loop.simps [simp del]

text \<open>
  The error finally thrown. \<open>_createNetworkError\<close> reads \<open>error.response\<close>: on the
  \<open>null\<close> left in \<open>lastError\<close> by a loop that never ran this is a \<open>TypeError\<close>;
  otherwise the \<open>NetworkError\<close> holds the status of \<open>error.response\<close> (or \<open>null\<close>),
  the original error, the URL and the method.
\<close>

datatype final_error =
    NetworkError "nat option" request_error string string
  | TypeError

fun createNetworkError :: "request_error option \<Rightarrow> string \<Rightarrow> string \<Rightarrow> final_error" where
  "createNetworkError None url method = TypeError"
| "createNetworkError (Some error) url method =
     NetworkError (err_response_status error) error url method"

definition makeRequest ::
  "string \<Rightarrow> string \<Rightarrow> env \<Rightarrow> request_options \<Rightarrow> int \<Rightarrow> network_manager \<Rightarrow>
   network_manager \<times> int \<times> net_event list \<times> (final_error + nat)" where
  "makeRequest method url e options now this0 =
     (let this = this0\<lparr>requestCount := requestCount this0 + 1\<rparr>;
          limited = applyRateLimit now this;
          run = attempt_loop e options 1 (fst limited) None this
      in (fst run, fst (snd run), snd limited @ fst (snd (snd run)),
          (case snd (snd (snd run)) of
             Inr response \<Rightarrow> Inr response
           | Inl lastError \<Rightarrow> Inl (createNetworkError lastError url method))))"

text \<open>Projections of a trace.\<close>

fun dispatched :: "net_event list \<Rightarrow> nat list" where
  "dispatched [] = []"
| "dispatched (Dispatch k t # tr) = k # dispatched tr"
| "dispatched (ev # tr) = dispatched tr"

fun dispatch_times :: "net_event list \<Rightarrow> int list" where
  "dispatch_times [] = []"
| "dispatch_times (Dispatch k t # tr) = t # dispatch_times tr"
| "dispatch_times (ev # tr) = dispatch_times tr"

text \<open>The backoff suspension that stands immediately before the dispatch of attempt \<open>k\<close>.\<close>

fun backoff_before :: "nat \<Rightarrow> net_event list \<Rightarrow> int option" where
  "backoff_before k (BackoffWait w # Dispatch j t # tr) =
     (if j = k then Some w else backoff_before k tr)"
| "backoff_before k (ev # tr) = backoff_before k tr"
| "backoff_before k [] = None"

text \<open>Classifiers of trace events and of outcomes, used to state the properties below.\<close>

definition is_dispatch :: "net_event \<Rightarrow> bool" where
  "is_dispatch ev = (case ev of Dispatch k t \<Rightarrow> True | _ \<Rightarrow> False)"

definition is_rate_wait :: "net_event \<Rightarrow> bool" where
  "is_rate_wait ev = (case ev of RateLimitWait w \<Rightarrow> True | _ \<Rightarrow> False)"

fun got_response :: "request_error option + nat \<Rightarrow> bool" where
  "got_response (Inr response) = True"
| "got_response (Inl (Some (HttpError st))) = True"
| "got_response (Inl other) = False"

definition always :: "wire \<Rightarrow> nat \<Rightarrow> env" where
  "always w ms = \<lparr>wire_of = (\<lambda>attempt. w), latency = (\<lambda>attempt. ms)\<rparr>"

definition default_options :: request_options where
  "default_options = \<lparr>followRedirect = None\<rparr>"

fun response_received :: "final_error + nat \<Rightarrow> bool" where
  "response_received (Inr response) = True"
| "response_received (Inl (NetworkError status (HttpError st) url method)) = True"
| "response_received (Inl other) = False"

fun spaced :: "int \<Rightarrow> int list \<Rightarrow> bool" where
  "spaced d (t # u # ts) = (d \<le> u - t \<and> spaced d (u # ts))"
| "spaced d ts = True"

definition trace_of :: "network_manager \<times> int \<times> net_event list \<times> (final_error + nat) \<Rightarrow> net_event list" where
  "trace_of run = fst (snd (snd run))"

definition result_of :: "network_manager \<times> int \<times> net_event list \<times> (final_error + nat) \<Rightarrow> final_error + nat" where
  "result_of run = snd (snd (snd run))"

definition time_of :: "network_manager \<times> int \<times> net_event list \<times> (final_error + nat) \<Rightarrow> int" where
  "time_of run = fst (snd run)"

text \<open>
  A scenario on the default settings: every attempt of a request is answered 503 after
  50 ms, and a second logical request is issued as soon as the first has failed.
\<close>

definition all_503 :: "network_manager \<times> int \<times> net_event list \<times> (final_error + nat)" where
  "all_503 = makeRequest ''GET'' ''/graphql'' (always (Replied 503) 50) default_options 1000000
     new_NetworkManager"

definition after_503 :: "network_manager \<times> int \<times> net_event list \<times> (final_error + nat)" where
  "after_503 = makeRequest ''GET'' ''/graphql'' (always (Replied 503) 50) default_options
     (time_of all_503) (fst all_503)"

text \<open>
  A scenario after \<open>updateRateLimit(3000000000)\<close>: a request answered 200 after 50 ms, and
  a second logical request issued as soon as the first has returned.
\<close>

definition long_delay :: network_manager where
  "long_delay = new_NetworkManager\<lparr>rateLimitDelay := 3000000000\<rparr>"

definition first_200 :: "network_manager \<times> int \<times> net_event list \<times> (final_error + nat)" where
  "first_200 = makeRequest ''GET'' ''/graphql'' (always (Replied 200) 50) default_options 1000000
     long_delay"

definition second_200 :: "network_manager \<times> int \<times> net_event list \<times> (final_error + nat)" where
  "second_200 = makeRequest ''GET'' ''/graphql'' (always (Replied 200) 50) default_options
     (time_of first_200) (fst first_200)"

text \<open>The replies that \<open>validateStatus\<close> refuses, and the socket failures.\<close>

fun rejected_by_axios :: "wire \<Rightarrow> bool" where
  "rejected_by_axios (Replied status) = (500 \<le> status)"
| "rejected_by_axios (Failed code) = True"

section \<open>Persistent channel: \<open>WebSocketManager\<close>\<close>

text \<open>
  The manager of \<open>src/client/WebSocketManager.js\<close>. JavaScript runs its callbacks one at
  a time, so the model is an event loop: a call of the manager's interface, an event of a
  transport, the expiry of a timer and the arrival of the connection information are
  events, each handled to its end. The asynchronous method \<open>connect\<close> is cut at its
  \<open>await\<close>s: between two events it is suspended at one of them, and when a callback settles
  the promise it waits for, its continuation runs as soon as the callback has returned.
  Time is not measured: an armed timer fires at some later event unless it is cleared.
\<close>

subsection \<open>JavaScript values and errors\<close>

text \<open>
  Exceptions: the \<open>NetworkError\<close> of \<open>utils/errors\<close> (its category is \<open>network\<close>), the
  \<open>TypeError\<close> and \<open>SyntaxError\<close> of the language, an error raised by the transport, and an
  exception thrown by a subscriber. Each carries its message.
\<close>

datatype js_error =
    NetErr string
  | TypeErr string
  | SyntaxErr string
  | TransportErr string
  | Thrown string

fun message_of :: "js_error \<Rightarrow> string" where
  "message_of (NetErr m) = m"
| "message_of (TypeErr m) = m"
| "message_of (SyntaxErr m) = m"
| "message_of (TransportErr m) = m"
| "message_of (Thrown m) = m"

fun category_of :: "js_error \<Rightarrow> string option" where
  "category_of (NetErr m) = Some ''network''"
| "category_of other = None"

text \<open>
  Frames, payloads and event arguments are JavaScript values; an object is the list of
  its properties. \<open>getprop\<close> is member access: it throws on \<open>undefined\<close> and \<open>null\<close> and
  gives \<open>undefined\<close> for a property that is absent.
\<close>

datatype jsval =
    JUndefined
  | JNull
  | JBool bool
  | JNum int
  | JStr string
  | JError js_error
  | JObj "(string \<times> jsval) list"

fun getprop :: "jsval \<Rightarrow> string \<Rightarrow> js_error + jsval" where
  "getprop JUndefined k = Inl (TypeErr ''Cannot read properties of undefined'')"
| "getprop JNull k = Inl (TypeErr ''Cannot read properties of null'')"
| "getprop (JObj kvs) k = Inr (case map_of kvs k of None \<Rightarrow> JUndefined | Some v \<Rightarrow> v)"
| "getprop other k = Inr JUndefined"

fun truthy :: "jsval \<Rightarrow> bool" where
  "truthy JUndefined = False"
| "truthy JNull = False"
| "truthy (JBool b) = b"
| "truthy (JNum n) = (n \<noteq> 0)"
| "truthy (JStr s) = (s \<noteq> [])"
| "truthy (JError e) = True"
| "truthy (JObj kvs) = True"

text \<open>
  The text of a value used as an error message. Only strings keep their text; the other
  values stand for JavaScript's string conversion of them.
\<close>

fun text_of :: "jsval \<Rightarrow> string" where
  "text_of (JStr s) = s"
| "text_of other = ''[value]''"

text \<open>Member access on a value that is known not to be \<open>undefined\<close> or \<open>null\<close>.\<close>

definition field :: "jsval \<Rightarrow> string \<Rightarrow> jsval" where
  "field v k = (case getprop v k of Inr x \<Rightarrow> x | Inl error \<Rightarrow> JUndefined)"

fun arg0 :: "jsval list \<Rightarrow> jsval" where
  "arg0 [] = JUndefined"
| "arg0 (a # as) = a"

subsection \<open>The manager and its surroundings\<close>

text \<open>
  The manager is an \<open>EventEmitter\<close>. Its listeners are the subscribers from outside
  (a subscriber has a number, and either returns or throws the given exception whenever
  it is called), the closure \<open>ackHandler\<close> of \<open>_waitForAcknowledgment\<close> with its message
  identifier and its timer, and the closure \<open>authHandler\<close> of \<open>_waitForAuthentication\<close>
  with its timer.
\<close>

datatype listener =
    Subscriber nat "js_error option"
  | AckHandler string nat
  | AuthHandler nat

text \<open>
  The timers that the manager arms, by the callback they run; the states of a transport
  (\<open>Closed\<close> stands for closing and closed); the promise of one
  \<open>_waitForAcknowledgment\<close>.
\<close>

datatype timer_kind =
    OpenTimeout | AuthTimeout | AckTimeout | ReconnectTimer | HeartbeatInterval | HeartbeatTimeout

datatype sock = Connecting | Open | Closed

datatype promise = Pending | Fulfilled jsval | Broken js_error

text \<open>
  Where the call of \<open>connect\<close> in flight stands: at \<open>await this._getConnectionInfo()\<close>, at
  \<open>await this._waitForConnection()\<close> (with the timer of the wait, the transport and the
  token of the connection information), at the wait of \<open>_waitForAuthentication\<close> (with its
  timer), or with its wait just settled and its continuation due.
\<close>

datatype resumption = AfterOpen jsval | AfterAuth | AfterFailure js_error

datatype connect_phase =
    NoConnect
  | AwaitInfo
  | AwaitOpen nat nat jsval
  | AwaitAuth nat
  | Resuming resumption

text \<open>
  What can be observed from outside: the events emitted on the manager and on the client,
  the calls of subscribers, the payloads sent on a transport, the console, the exceptions
  that leave a callback, and the settlement of a call of \<open>connect\<close> that passed the guard.
\<close>

datatype obs =
    Emit string "jsval list"
  | ClientEmit string "jsval list"
  | Called nat string
  | Sent nat jsval
  | ConsoleLog string jsval
  | ConsoleWarn string
  | ConsoleError string js_error
  | Uncaught js_error
  | ConnectResolved
  | ConnectRejected js_error

text \<open>
  The first ten fields are the fields of the class, \<open>listeners\<close> being the table of the
  \<open>EventEmitter\<close> and \<open>ws\<close> the index of the current transport. Then come what the manager
  reads from its client (\<open>options.autoReconnect\<close>, \<open>auth.accessToken\<close>, \<open>auth.deviceId\<close>,
  \<open>auth.clientId\<close>, the client's own listeners), and the surroundings: the armed timers as
  (identifier, kind, delay), the next timer identifier, the transports created so far,
  the acknowledgment promises by the timer of their wait, the state of \<open>connect\<close>, and
  the log. The constructor's values are those of the source.
\<close>

record ws_manager =
  isConnected :: bool
  isConnecting :: bool
  reconnectAttempts :: nat
  maxReconnectAttempts :: nat
  reconnectDelay :: nat
  heartbeatInterval :: "nat option"
  heartbeatTimeout :: "nat option"
  ws :: "nat option"
  pendingMessages :: "(jsval \<times> jsval) list"
  listeners :: "(string \<times> listener) list"
  autoReconnect :: bool
  accessToken :: jsval
  deviceId :: jsval
  clientId :: jsval
  clientListeners :: "(string \<times> listener) list"
  timers :: "(nat \<times> timer_kind \<times> nat) list"
  nextTimer :: nat
  sockets :: "sock list"
  acks :: "(nat \<times> promise) list"
  phase :: connect_phase
  observed :: "obs list"

definition new_WebSocketManager :: "bool \<Rightarrow> jsval \<Rightarrow> jsval \<Rightarrow> jsval \<Rightarrow> ws_manager" where
  "new_WebSocketManager auto token device client =
     \<lparr>isConnected = False, isConnecting = False, reconnectAttempts = 0,
      maxReconnectAttempts = 5, reconnectDelay = 1000, heartbeatInterval = None,
      heartbeatTimeout = None, ws = None, pendingMessages = [], listeners = [],
      autoReconnect = auto, accessToken = token, deviceId = device, clientId = client,
      clientListeners = [], timers = [], nextTimer = 0, sockets = [], acks = [],
      phase = NoConnect, observed = []\<rparr>"

definition observe :: "obs \<Rightarrow> ws_manager \<Rightarrow> ws_manager" where
  "observe ob this = this\<lparr>observed := observed this @ [ob]\<rparr>"

subsection \<open>Timers, sockets, promises\<close>

text \<open>
  \<open>setTimeout\<close> and \<open>setInterval\<close> return a fresh identifier; \<open>clearTimeout\<close> and
  \<open>clearInterval\<close> disarm. The delay kept with a timer is the one asked for, the argument
  of the call; when the timer fires is left to the events. A promise is settled by the first \<open>resolve\<close> or \<open>reject\<close>
  only. \<open>ws.send\<close> throws on a transport that is still connecting, sends on an open one,
  and drops the payload silently on a closing or closed one; on \<open>null\<close> the call throws.
\<close>

definition setTimer :: "timer_kind \<Rightarrow> nat \<Rightarrow> ws_manager \<Rightarrow> nat \<times> ws_manager" where
  "setTimer kind ms this =
     (nextTimer this,
      this\<lparr>timers := timers this @ [(nextTimer this, kind, ms)], nextTimer := nextTimer this + 1\<rparr>)"

definition clearTimer :: "nat \<Rightarrow> ws_manager \<Rightarrow> ws_manager" where
  "clearTimer t this = this\<lparr>timers := filter (\<lambda>entry. fst entry \<noteq> t) (timers this)\<rparr>"

definition sock_at :: "ws_manager \<Rightarrow> nat \<Rightarrow> sock" where
  "sock_at this i = (if i < length (sockets this) then sockets this ! i else Closed)"

definition set_sock :: "nat \<Rightarrow> sock \<Rightarrow> ws_manager \<Rightarrow> ws_manager" where
  "set_sock i st this = this\<lparr>sockets := (sockets this)[i := st]\<rparr>"

definition live_transports :: "ws_manager \<Rightarrow> nat" where
  "live_transports this = length (filter (\<lambda>st. st \<noteq> Closed) (sockets this))"

definition settle :: "nat \<Rightarrow> promise \<Rightarrow> ws_manager \<Rightarrow> ws_manager" where
  "settle t outcome this =
     this\<lparr>acks := map (\<lambda>entry. if fst entry = t \<and> snd entry = Pending then (t, outcome) else entry)
                     (acks this)\<rparr>"

definition ws_send :: "jsval \<Rightarrow> ws_manager \<Rightarrow> ws_manager \<times> js_error option" where
  "ws_send payload this =
     (case ws this of
        None \<Rightarrow> (this, Some (TypeErr ''Cannot read properties of null''))
      | Some i \<Rightarrow>
          (case sock_at this i of
             Connecting \<Rightarrow> (this, Some (TransportErr ''WebSocket is not open: readyState 0''))
           | Open \<Rightarrow> (observe (Sent i payload) this, None)
           | Closed \<Rightarrow> (this, None)))"

subsection \<open>Event emission\<close>

text \<open>
  \<open>emit\<close> calls the listeners registered for the event at the time of the call, in the
  order of registration; an exception thrown by a listener leaves \<open>emit\<close> at once, so the
  remaining listeners are not called; an \<open>error\<close> event without a listener throws its
  argument. \<open>seq\<close> is sequential composition of two statements that may throw.
\<close>

definition on :: "string \<Rightarrow> listener \<Rightarrow> ws_manager \<Rightarrow> ws_manager" where
  "on name l this = this\<lparr>listeners := listeners this @ [(name, l)]\<rparr>"

definition removeListener :: "string \<Rightarrow> listener \<Rightarrow> ws_manager \<Rightarrow> ws_manager" where
  "removeListener name l this =
     this\<lparr>listeners := filter (\<lambda>entry. entry \<noteq> (name, l)) (listeners this)\<rparr>"

definition listeners_of :: "string \<Rightarrow> (string \<times> listener) list \<Rightarrow> listener list" where
  "listeners_of name table = map snd (filter (\<lambda>entry. fst entry = name) table)"

definition seq ::
  "ws_manager \<times> js_error option \<Rightarrow> (ws_manager \<Rightarrow> ws_manager \<times> js_error option) \<Rightarrow>
   ws_manager \<times> js_error option" where
  "seq r f = (case snd r of Some error \<Rightarrow> r | None \<Rightarrow> f (fst r))"

definition resolve_auth :: "nat \<Rightarrow> resumption \<Rightarrow> ws_manager \<Rightarrow> ws_manager" where
  "resolve_auth t r this =
     (case phase this of
        AwaitAuth t' \<Rightarrow> if t' = t then this\<lparr>phase := Resuming r\<rparr> else this
      | other \<Rightarrow> this)"

fun invoke :: "listener \<Rightarrow> string \<Rightarrow> jsval list \<Rightarrow> ws_manager \<Rightarrow> ws_manager \<times> js_error option" where
  "invoke (Subscriber i thrown) name args this = (observe (Called i name) this, thrown)"
| "invoke (AckHandler messageId t) name args this =
     (case getprop (arg0 args) ''message_id'' of
        Inl error \<Rightarrow> (this, Some error)
      | Inr v \<Rightarrow>
          if v = JStr messageId then
            (settle t (Fulfilled (arg0 args))
               (removeListener ''messageAcknowledged'' (AckHandler messageId t) (clearTimer t this)),
             None)
          else (this, None))"
| "invoke (AuthHandler t) name args this =
     (case getprop (arg0 args) ''type'' of
        Inl error \<Rightarrow> (this, Some error)
      | Inr v \<Rightarrow>
          if v = JStr ''authentication_response'' then
            (let this1 = removeListener ''message'' (AuthHandler t) (clearTimer t this) in
             case getprop (arg0 args) ''success'' of
               Inl error \<Rightarrow> (this1, Some error)
             | Inr ok \<Rightarrow>
                 if truthy ok then (resolve_auth t AfterAuth this1, None)
                 else (case getprop (arg0 args) ''error'' of
                         Inl error \<Rightarrow> (this1, Some error)
                       | Inr m \<Rightarrow>
                           (resolve_auth t
                              (AfterFailure (NetErr (if truthy m then text_of m
                                                     else ''Authentication failed'')))
                              this1, None)))
          else (this, None))"

fun run_listeners ::
  "listener list \<Rightarrow> string \<Rightarrow> jsval list \<Rightarrow> ws_manager \<Rightarrow> ws_manager \<times> js_error option" where
  "run_listeners [] name args this = (this, None)"
| "run_listeners (l # ls) name args this =
     seq (invoke l name args this) (run_listeners ls name args)"

definition emit :: "string \<Rightarrow> jsval list \<Rightarrow> ws_manager \<Rightarrow> ws_manager \<times> js_error option" where
  "emit name args this =
     (let called = listeners_of name (listeners this);
          this1 = observe (Emit name args) this
      in if called = [] \<and> name = ''error'' then
           (this1, Some (case arg0 args of JError error \<Rightarrow> error
                         | other \<Rightarrow> TypeErr ''Unhandled error''))
         else run_listeners called name args this1)"

definition client_emit :: "string \<Rightarrow> jsval list \<Rightarrow> ws_manager \<Rightarrow> ws_manager \<times> js_error option" where
  "client_emit name args this =
     (let called = listeners_of name (clientListeners this);
          this1 = observe (ClientEmit name args) this
      in if called = [] \<and> name = ''error'' then
           (this1, Some (case arg0 args of JError error \<Rightarrow> error
                         | other \<Rightarrow> TypeErr ''Unhandled error''))
         else run_listeners called name args this1)"


subsection \<open>Heartbeat and reconnection\<close>

text \<open>
  \<open>_startHeartbeatTimeout\<close>, \<open>_startHeartbeat\<close>, \<open>_stopHeartbeat\<close>, \<open>_handleHeartbeat\<close>,
  \<open>_scheduleReconnect\<close>, \<open>_handleWebSocketClose\<close> and \<open>_handleWebSocketError\<close>. The two
  \<open>_start\<close> methods overwrite the field with the new timer and leave the timer that the
  field named before armed.
\<close>

definition startHeartbeatTimeout :: "ws_manager \<Rightarrow> ws_manager" where
  "startHeartbeatTimeout this =
     (let armed = setTimer HeartbeatTimeout 10000 this
      in (snd armed)\<lparr>heartbeatTimeout := Some (fst armed)\<rparr>)"

definition startHeartbeat :: "ws_manager \<Rightarrow> ws_manager" where
  "startHeartbeat this =
     (let armed = setTimer HeartbeatInterval 30000 this
      in (snd armed)\<lparr>heartbeatInterval := Some (fst armed)\<rparr>)"

definition stopHeartbeat :: "ws_manager \<Rightarrow> ws_manager" where
  "stopHeartbeat this =
     (let this1 = (case heartbeatInterval this of
                     Some t \<Rightarrow> (clearTimer t this)\<lparr>heartbeatInterval := None\<rparr>
                   | None \<Rightarrow> this)
      in case heartbeatTimeout this1 of
           Some t \<Rightarrow> (clearTimer t this1)\<lparr>heartbeatTimeout := None\<rparr>
         | None \<Rightarrow> this1)"

definition handleHeartbeat :: "jsval \<Rightarrow> ws_manager \<Rightarrow> ws_manager" where
  "handleHeartbeat message this =
     (case heartbeatTimeout this of
        Some t \<Rightarrow> startHeartbeatTimeout (clearTimer t this)
      | None \<Rightarrow> this)"

definition scheduleReconnect :: "ws_manager \<Rightarrow> ws_manager" where
  "scheduleReconnect this =
     (let this1 = this\<lparr>reconnectAttempts := reconnectAttempts this + 1\<rparr>;
          delay = reconnectDelay this1 * 2 ^ (reconnectAttempts this1 - 1)
      in snd (setTimer ReconnectTimer delay this1))"

definition handleWebSocketClose :: "int \<Rightarrow> string \<Rightarrow> ws_manager \<Rightarrow> ws_manager \<times> js_error option" where
  "handleWebSocketClose code reason this =
     seq (emit ''close'' [JNum code, JStr reason] (this\<lparr>isConnected := False\<rparr>))
       (\<lambda>this1.
          (if autoReconnect this1 \<and> reconnectAttempts this1 < maxReconnectAttempts this1
           then scheduleReconnect this1 else this1, None))"

definition handleWebSocketError :: "js_error \<Rightarrow> ws_manager \<Rightarrow> ws_manager \<times> js_error option" where
  "handleWebSocketError error this =
     seq (emit ''error'' [JError error] this)
       (\<lambda>this1.
          (if autoReconnect this1 \<and> reconnectAttempts this1 < maxReconnectAttempts this1
           then scheduleReconnect this1 else this1, None))"

subsection \<open>Inbound frames\<close>

text \<open>
  A frame is text that \<open>JSON.parse\<close> rejects or a parsed value. \<open>pendingMessages\<close> is a
  \<open>Map\<close>, kept as an association list in insertion order. \<open>_handleWebSocketMessage\<close> wraps
  parsing and dispatch in one \<open>try\<close>, whose \<open>catch\<close> writes the error to the console.
\<close>

datatype raw = Unparsable | Parsed jsval

definition map_set :: "jsval \<Rightarrow> jsval \<Rightarrow> (jsval \<times> jsval) list \<Rightarrow> (jsval \<times> jsval) list" where
  "map_set k v m =
     (if map_of m k = None then m @ [(k, v)]
      else map (\<lambda>entry. if fst entry = k then (k, v) else entry) m)"

definition map_delete :: "jsval \<Rightarrow> (jsval \<times> jsval) list \<Rightarrow> (jsval \<times> jsval) list" where
  "map_delete k m = filter (\<lambda>entry. fst entry \<noteq> k) m"

text \<open>
  \<open>MessageManager.handleIncomingMessage\<close>, seen from the channel: it copies the message
  and emits \<open>messageReceived\<close> on the client.
\<close>

definition messages_handleIncomingMessage :: "jsval \<Rightarrow> ws_manager \<Rightarrow> ws_manager \<times> js_error option" where
  "messages_handleIncomingMessage messageData this =
     client_emit ''messageReceived''
       [JObj [(''id'', field messageData ''message_id''), (''text'', field messageData ''text''),
              (''type'', field messageData ''type''), (''timestamp'', field messageData ''timestamp''),
              (''thread_id'', field messageData ''thread_id''), (''sender'', field messageData ''sender''),
              (''message_id'', field messageData ''message_id'')]] this"

definition handleIncomingMessage :: "jsval \<Rightarrow> ws_manager \<Rightarrow> ws_manager \<times> js_error option" where
  "handleIncomingMessage message this =
     (case getprop (field message ''data'') ''id'' of
        Inl error \<Rightarrow> (this, Some error)
      | Inr ident \<Rightarrow>
          (let d = field message ''data'';
               messageData = JObj [(''message_id'', ident), (''text'', field d ''text''),
                 (''type'', field d ''type''), (''timestamp'', field d ''timestamp''),
                 (''thread_id'', field d ''thread_id''), (''sender'', field d ''sender'')]
           in seq (messages_handleIncomingMessage messageData this)
                (emit ''message'' [messageData])))"

definition handleTypingIndicator :: "jsval \<Rightarrow> ws_manager \<Rightarrow> ws_manager \<times> js_error option" where
  "handleTypingIndicator message this =
     emit ''typing''
       [JObj [(''thread_id'', field message ''thread_id''), (''user_id'', field message ''user_id''),
              (''typing'', field message ''typing''), (''timestamp'', field message ''timestamp'')]]
       this"

definition handleReadReceipt :: "jsval \<Rightarrow> ws_manager \<Rightarrow> ws_manager \<times> js_error option" where
  "handleReadReceipt message this =
     emit ''read''
       [JObj [(''thread_id'', field message ''thread_id''), (''message_id'', field message ''message_id''),
              (''user_id'', field message ''user_id''), (''timestamp'', field message ''timestamp'')]]
       this"

definition handleOnlineStatus :: "jsval \<Rightarrow> ws_manager \<Rightarrow> ws_manager \<times> js_error option" where
  "handleOnlineStatus message this =
     emit (if truthy (field message ''online'') then ''online'' else ''offline'')
       [JObj [(''user_id'', field message ''user_id''), (''online'', field message ''online''),
              (''timestamp'', field message ''timestamp'')]]
       this"

definition handleAcknowledgment :: "jsval \<Rightarrow> ws_manager \<Rightarrow> ws_manager \<times> js_error option" where
  "handleAcknowledgment message this =
     (case map_of (pendingMessages this) (field message ''message_id'') of
        None \<Rightarrow> (this, None)
      | Some pendingMessage \<Rightarrow>
          if truthy pendingMessage then
            emit ''messageAcknowledged'' [pendingMessage]
              (this\<lparr>pendingMessages :=
                      map_delete (field message ''message_id'') (pendingMessages this)\<rparr>)
          else (this, None))"

definition dispatch_frame :: "jsval \<Rightarrow> ws_manager \<Rightarrow> ws_manager \<times> js_error option" where
  "dispatch_frame message this =
     (case getprop message ''type'' of
        Inl error \<Rightarrow> (this, Some error)
      | Inr ty \<Rightarrow>
          if ty = JStr ''message'' then handleIncomingMessage message this
          else if ty = JStr ''typing'' then handleTypingIndicator message this
          else if ty = JStr ''read_receipt'' then handleReadReceipt message this
          else if ty = JStr ''online_status'' then handleOnlineStatus message this
          else if ty = JStr ''acknowledgment'' then handleAcknowledgment message this
          else if ty = JStr ''heartbeat'' then (handleHeartbeat message this, None)
          else (observe (ConsoleLog ''Unknown WebSocket message type:'' ty) this, None))"

definition handleWebSocketMessage :: "raw \<Rightarrow> ws_manager \<Rightarrow> ws_manager" where
  "handleWebSocketMessage frame this =
     (let r = (case frame of
                 Unparsable \<Rightarrow> (this, Some (SyntaxErr ''Unexpected token in JSON''))
               | Parsed message \<Rightarrow> dispatch_frame message this)
      in case snd r of
           Some error \<Rightarrow> observe (ConsoleError ''Failed to parse WebSocket message:'' error) (fst r)
         | None \<Rightarrow> fst r)"

subsection \<open>Connecting and disconnecting\<close>

text \<open>
  \<open>connect\<close> in its pieces: up to the first \<open>await\<close> (\<open>connect\<close>), from the connection
  information to the wait for the transport (\<open>connect_after_info\<close>), from the open transport
  to the wait for authentication (\<open>connect_after_open\<close>), the rest of the \<open>try\<close> block
  (\<open>connect_finish\<close>), and the \<open>catch\<close> block (\<open>connect_catch\<close>), where the \<open>error\<close> event may
  throw in its turn. \<open>_getConnectionInfo\<close> catches every failure of its request and answers
  with the fallback, so only the outcome of the request matters. \<open>drain\<close> runs the
  continuation that the callback just handled has resumed.
\<close>

definition connect_catch :: "js_error \<Rightarrow> ws_manager \<Rightarrow> ws_manager" where
  "connect_catch error this =
     (let r = emit ''error'' [JError error] (this\<lparr>isConnecting := False, phase := NoConnect\<rparr>)
      in case snd r of
           Some thrown \<Rightarrow> observe (ConnectRejected thrown) (fst r)
         | None \<Rightarrow>
             observe (ConnectRejected (NetErr (''WebSocket connection failed: '' @ message_of error)))
               (fst r))"

definition connect :: "ws_manager \<Rightarrow> ws_manager" where
  "connect this =
     (if isConnected this \<or> isConnecting this then this
      else (let r = emit ''connecting'' [] (this\<lparr>isConnecting := True\<rparr>)
            in case snd r of
                 Some error \<Rightarrow> connect_catch error (fst r)
               | None \<Rightarrow> (fst r)\<lparr>phase := AwaitInfo\<rparr>))"

datatype post_outcome = PostResolved jsval | PostRejected

definition fallback_info :: "ws_manager \<Rightarrow> jsval" where
  "fallback_info this =
     JObj [(''url'', JStr ''wss://edge-chat.facebook.com/chat''), (''token'', accessToken this)]"

fun getConnectionInfo :: "post_outcome \<Rightarrow> ws_manager \<Rightarrow> jsval" where
  "getConnectionInfo PostRejected this = fallback_info this"
| "getConnectionInfo (PostResolved response_data) this =
     (if truthy response_data \<and> truthy (field response_data ''data'') \<and>
         truthy (field (field response_data ''data'') ''websocketInfo'')
      then field (field response_data ''data'') ''websocketInfo''
      else fallback_info this)"

fun valid_ws_url :: "jsval \<Rightarrow> bool" where
  "valid_ws_url (JStr u) = (take 5 u = ''ws://'' \<or> take 6 u = ''wss://'')"
| "valid_ws_url other = False"

definition connect_after_info :: "post_outcome \<Rightarrow> ws_manager \<Rightarrow> ws_manager" where
  "connect_after_info outcome this =
     (let connectionInfo = getConnectionInfo outcome this in
      if valid_ws_url (field connectionInfo ''url'') then
        (let i = length (sockets this);
             this1 = this\<lparr>sockets := sockets this @ [Connecting], ws := Some i\<rparr>;
             armed = setTimer OpenTimeout 30000 this1
         in (snd armed)\<lparr>phase := AwaitOpen (fst armed) i (field connectionInfo ''token'')\<rparr>)
      else connect_catch (SyntaxErr ''Invalid URL'') this)"

definition connect_after_open :: "jsval \<Rightarrow> ws_manager \<Rightarrow> ws_manager" where
  "connect_after_open token this =
     (let r = ws_send (JObj [(''type'', JStr ''authentication''), (''token'', token),
                 (''device_id'', deviceId this), (''client_id'', clientId this),
                 (''platform'', JStr ''android''), (''version'', JStr ''2023.12.04.00'')]) this
      in case snd r of
           Some error \<Rightarrow> connect_catch error (fst r)
         | None \<Rightarrow>
             (let armed = setTimer AuthTimeout 10000 (fst r)
              in (on ''message'' (AuthHandler (fst armed)) (snd armed))
                   \<lparr>phase := AwaitAuth (fst armed)\<rparr>))"

definition connect_finish :: "ws_manager \<Rightarrow> ws_manager" where
  "connect_finish this =
     (let this1 = (startHeartbeat this)
                    \<lparr>isConnected := True, isConnecting := False, reconnectAttempts := 0\<rparr>;
          r = seq (emit ''connect'' [] this1)
                (emit ''connection'' [JObj [(''status'', JStr ''websocket_connected'')]])
      in case snd r of
           Some error \<Rightarrow> connect_catch error (fst r)
         | None \<Rightarrow> observe ConnectResolved ((fst r)\<lparr>phase := NoConnect\<rparr>))"

definition drain :: "ws_manager \<Rightarrow> ws_manager" where
  "drain this =
     (case phase this of
        Resuming (AfterOpen token) \<Rightarrow> connect_after_open token this
      | Resuming AfterAuth \<Rightarrow> connect_finish this
      | Resuming (AfterFailure error) \<Rightarrow> connect_catch error this
      | other \<Rightarrow> this)"

definition disconnect :: "ws_manager \<Rightarrow> ws_manager" where
  "disconnect this =
     (if \<not> isConnected this then this
      else (let this1 = stopHeartbeat this;
                this2 = (case ws this1 of
                           Some i \<Rightarrow> (set_sock i Closed this1)\<lparr>ws := None\<rparr>
                         | None \<Rightarrow> this1);
                r = seq (emit ''disconnect'' [] (this2\<lparr>isConnected := False\<rparr>))
                      (emit ''disconnection'' [JObj [(''status'', JStr ''websocket_disconnected'')]])
            in case snd r of
                 Some error \<Rightarrow> observe (ConsoleError ''WebSocket disconnect error:'' error) (fst r)
               | None \<Rightarrow> fst r))"

subsection \<open>Sending with acknowledgment\<close>

text \<open>
  \<open>sendMessage\<close> either rejects before any wait or waits for the acknowledgment; the
  promise of the wait is named by its timer. \<open>send_future\<close> is the promise that
  \<open>sendMessage\<close> returned: a rejected wait passes through the \<open>catch\<close> block of
  \<open>sendMessage\<close>, which wraps the error.
\<close>

datatype send_outcome = SendRejected js_error | SendAwaiting nat

definition sendMessage :: "jsval \<Rightarrow> int \<Rightarrow> string \<Rightarrow> ws_manager \<Rightarrow> ws_manager \<times> send_outcome" where
  "sendMessage messageData now messageId this =
     (if \<not> isConnected this then (this, SendRejected (NetErr ''WebSocket not connected''))
      else (let message = JObj [(''type'', JStr ''message''), (''data'', messageData),
                                (''timestamp'', JNum now), (''id'', JStr messageId)];
                r = ws_send message
                      (this\<lparr>pendingMessages := map_set (JStr messageId) message (pendingMessages this)\<rparr>)
            in case snd r of
                 Some error \<Rightarrow>
                   (fst r, SendRejected (NetErr (''Failed to send message: '' @ message_of error)))
               | None \<Rightarrow>
                   (let armed = setTimer AckTimeout 10000 (fst r);
                        this1 = on ''messageAcknowledged'' (AckHandler messageId (fst armed)) (snd armed)
                    in (this1\<lparr>acks := acks this1 @ [(fst armed, Pending)]\<rparr>,
                        SendAwaiting (fst armed)))))"

datatype future = StillPending | ResolvedWith jsval | RejectedWith js_error

definition send_future :: "ws_manager \<Rightarrow> nat \<Rightarrow> future" where
  "send_future this t =
     (case map_of (acks this) t of
        Some (Fulfilled v) \<Rightarrow> ResolvedWith v
      | Some (Broken error) \<Rightarrow>
          RejectedWith (NetErr (''Failed to send message: '' @ message_of error))
      | other \<Rightarrow> StillPending)"

subsection \<open>The event loop\<close>

text \<open>
  The callbacks that the manager hands to the transport and to the timers, and the events
  of the loop. An exception that leaves a callback is recorded as uncaught. A timeout is
  disarmed when it fires, an interval is not.
\<close>

definition uncaught :: "ws_manager \<times> js_error option \<Rightarrow> ws_manager" where
  "uncaught r = (case snd r of Some error \<Rightarrow> observe (Uncaught error) (fst r) | None \<Rightarrow> fst r)"

definition on_open :: "nat \<Rightarrow> ws_manager \<Rightarrow> ws_manager" where
  "on_open i this =
     (if sock_at this i = Connecting then
        (let r = emit ''open'' [] (set_sock i Open this)
         in case snd r of
              Some error \<Rightarrow> observe (Uncaught error) (fst r)
            | None \<Rightarrow>
                (case phase (fst r) of
                   AwaitOpen t j token \<Rightarrow>
                     if j = i then (clearTimer t (fst r))\<lparr>phase := Resuming (AfterOpen token)\<rparr>
                     else fst r
                 | other \<Rightarrow> fst r))
      else this)"

definition on_error :: "nat \<Rightarrow> js_error \<Rightarrow> ws_manager \<Rightarrow> ws_manager" where
  "on_error i error this =
     (if i < length (sockets this) then
        (let r = handleWebSocketError error (set_sock i Closed this)
         in case snd r of
              Some thrown \<Rightarrow> observe (Uncaught thrown) (fst r)
            | None \<Rightarrow>
                (case phase (fst r) of
                   AwaitOpen t j token \<Rightarrow>
                     if j = i then (clearTimer t (fst r))\<lparr>phase := Resuming (AfterFailure error)\<rparr>
                     else fst r
                 | other \<Rightarrow> fst r))
      else this)"

definition on_close :: "nat \<Rightarrow> int \<Rightarrow> string \<Rightarrow> ws_manager \<Rightarrow> ws_manager" where
  "on_close i code reason this =
     (if i < length (sockets this)
      then uncaught (handleWebSocketClose code reason (set_sock i Closed this))
      else this)"

definition timer_callback :: "nat \<Rightarrow> timer_kind \<Rightarrow> int \<Rightarrow> ws_manager \<Rightarrow> ws_manager" where
  "timer_callback t kind now this =
     (case kind of
        OpenTimeout \<Rightarrow>
          (case phase this of
             AwaitOpen t' j token \<Rightarrow>
               if t' = t
               then this\<lparr>phase := Resuming (AfterFailure (NetErr ''WebSocket connection timeout''))\<rparr>
               else this
           | other \<Rightarrow> this)
      | AuthTimeout \<Rightarrow> resolve_auth t (AfterFailure (NetErr ''Authentication timeout'')) this
      | AckTimeout \<Rightarrow> settle t (Broken (NetErr ''Message acknowledgment timeout'')) this
      | ReconnectTimer \<Rightarrow>
          if \<not> isConnected this \<and> \<not> isConnecting this then connect this else this
      | HeartbeatInterval \<Rightarrow>
          if isConnected this then
            uncaught
              (seq (ws_send (JObj [(''type'', JStr ''heartbeat''), (''timestamp'', JNum now)]) this)
                 (\<lambda>this1. (startHeartbeatTimeout this1, None)))
          else this
      | HeartbeatTimeout \<Rightarrow>
          connect (disconnect (observe (ConsoleWarn ''Heartbeat timeout, reconnecting...'') this)))"

definition on_timer :: "nat \<Rightarrow> int \<Rightarrow> ws_manager \<Rightarrow> ws_manager" where
  "on_timer t now this =
     (case map_of (timers this) t of
        None \<Rightarrow> this
      | Some (kind, ms) \<Rightarrow>
          timer_callback t kind now (if kind = HeartbeatInterval then this else clearTimer t this))"

datatype event =
    Connect
  | Disconnect
  | SendMessage jsval int string
  | Subscribe string nat "js_error option"
  | ClientSubscribe string nat "js_error option"
  | ConnectionInfo post_outcome
  | SocketOpen nat
  | SocketError nat js_error
  | SocketClose nat int string
  | Frame nat raw
  | TimerFires nat int

fun handle :: "event \<Rightarrow> ws_manager \<Rightarrow> ws_manager" where
  "handle Connect this = connect this"
| "handle Disconnect this = disconnect this"
| "handle (SendMessage messageData now messageId) this = fst (sendMessage messageData now messageId this)"
| "handle (Subscribe name i thrown) this = on name (Subscriber i thrown) this"
| "handle (ClientSubscribe name i thrown) this =
     this\<lparr>clientListeners := clientListeners this @ [(name, Subscriber i thrown)]\<rparr>"
| "handle (ConnectionInfo outcome) this =
     (if phase this = AwaitInfo then connect_after_info outcome this else this)"
| "handle (SocketOpen i) this = on_open i this"
| "handle (SocketError i error) this = on_error i error this"
| "handle (SocketClose i code reason) this = on_close i code reason this"
| "handle (Frame i frame) this = handleWebSocketMessage frame this"
| "handle (TimerFires t now) this = on_timer t now this"

definition step :: "event \<Rightarrow> ws_manager \<Rightarrow> ws_manager" where
  "step ev this = drain (handle ev this)"

fun run :: "event list \<Rightarrow> ws_manager \<Rightarrow> ws_manager" where
  "run [] this = this"
| "run (ev # evs) this = run evs (step ev this)"

section \<open>Scenarios and auxiliary notions for the channel\<close>

definition core :: "ws_manager \<Rightarrow> ws_manager" where
  "core this = this\<lparr>observed := [], timers := [], listeners := [], acks := [], phase := NoConnect\<rparr>"

fun emit_names :: "obs list \<Rightarrow> string list" where
  "emit_names [] = []"
| "emit_names (Emit name args # obs) = name # emit_names obs"
| "emit_names (ob # obs) = emit_names obs"

definition emitted :: "ws_manager \<Rightarrow> string list" where
  "emitted this = emit_names (observed this)"

definition quiescent :: "ws_manager \<Rightarrow> bool" where
  "quiescent this = (case phase this of Resuming r \<Rightarrow> False | other \<Rightarrow> True)"

definition phase_le :: "connect_phase \<Rightarrow> connect_phase \<Rightarrow> bool" where
  "phase_le p p' \<longleftrightarrow> p' = p \<or> (\<exists>t r. p = AwaitAuth t \<and> p' = Resuming r)"

definition fresh_manager :: ws_manager where
  "fresh_manager = new_WebSocketManager True (JStr ''token'') (JStr ''device'') (JStr ''client'')"


definition authenticating :: ws_manager where
  "authenticating =
     run [Subscribe ''error'' 1 None, Connect, ConnectionInfo PostRejected, SocketOpen 0] fresh_manager"

text \<open>
  An open channel: the \<open>message\<close> event that \<open>authHandler\<close> waits for is emitted on the
  manager itself, through the \<open>emit\<close> that it inherits. No frame has this effect.
\<close>

definition opened :: ws_manager where
  "opened =
     drain (fst (emit ''message''
       [JObj [(''type'', JStr ''authentication_response''), (''success'', JBool True)]]
       authenticating))"


definition delay_of_last_timer :: "ws_manager \<Rightarrow> nat" where
  "delay_of_last_timer this = snd (snd (last (timers this)))"

definition refused :: js_error where
  "refused = TransportErr ''connect ECONNREFUSED''"

definition exhausted :: ws_manager where
  "exhausted =
     run [Subscribe ''error'' 1 None,
          Connect, ConnectionInfo PostRejected, SocketError 0 refused, SocketClose 0 1006 [],
          TimerFires 1 1000, ConnectionInfo PostRejected, SocketError 1 refused, SocketClose 1 1006 [],
          TimerFires 4 5000, ConnectionInfo PostRejected, SocketError 2 refused]
       fresh_manager"

definition refused_once :: ws_manager where
  "refused_once =
     run [Subscribe ''error'' 1 None, Subscribe ''close'' 2 None,
          Connect, ConnectionInfo PostRejected, SocketError 0 refused]
       fresh_manager"

definition unheard_error :: ws_manager where
  "unheard_error = run [Connect, ConnectionInfo PostRejected, SocketError 0 refused] fresh_manager"

text \<open>
  The outcomes on the wire that the retry policy is meant to retry: a server error, or a
  socket failure with one of the four codes that \<open>_shouldRetry\<close> lists.
\<close>

fun retryable :: "wire \<Rightarrow> bool" where
  "retryable (Replied status) = (500 \<le> status)"
| "retryable (Failed code) =
     (code = ''ECONNRESET'' \<or> code = ''ECONNREFUSED'' \<or> code = ''ENOTFOUND'' \<or> code = ''ETIMEDOUT'')"

text \<open>The discriminants that the frame handler knows.\<close>

definition discriminants :: "jsval list" where
  "discriminants =
     [JStr ''message'', JStr ''typing'', JStr ''read_receipt'', JStr ''online_status'',
      JStr ''acknowledgment'', JStr ''heartbeat'']"

text \<open>An open channel with two subscribers of \<open>typing\<close>, the first of which throws.\<close>

definition two_subscribers :: ws_manager where
  "two_subscribers =
     run [Subscribe ''typing'' 7 (Some (Thrown ''boom'')), Subscribe ''typing'' 8 None] opened"

definition typing_frame :: raw where
  "typing_frame =
     Parsed (JObj [(''type'', JStr ''typing''), (''thread_id'', JStr ''t1''),
                   (''user_id'', JStr ''u1''), (''typing'', JBool True), (''timestamp'', JNum 9)])"

text \<open>
  A connect whose channel authentication times out, followed by a second call of
  \<open>connect\<close>.
\<close>

definition reconnected_after_auth_timeout :: ws_manager where
  "reconnected_after_auth_timeout =
     run [TimerFires 1 10000, Connect, ConnectionInfo PostRejected] authenticating"

text \<open>
  The connecting flag is consistent when it is set exactly while a call of \<open>connect\<close> is
  in flight. Between two events the call in flight is suspended at one of its waits.
\<close>

definition in_flight :: "ws_manager \<Rightarrow> bool" where
  "in_flight this \<longleftrightarrow> (isConnecting this \<longleftrightarrow> phase this \<noteq> NoConnect)"

fun awaiting :: "connect_phase \<Rightarrow> bool" where
  "awaiting AwaitInfo = True"
| "awaiting (AwaitOpen t i token) = True"
| "awaiting (AwaitAuth t) = True"
| "awaiting other = False"

text \<open>A server-supplied connection information whose URL is not a WebSocket URL.\<close>

definition bad_info :: post_outcome where
  "bad_info =
     PostResolved (JObj [(''data'', JObj [(''websocketInfo'',
       JObj [(''url'', JStr ''not a url''), (''token'', JStr ''t'')])])])"

text \<open>
  What a manager that never opened looks like. The payloads sent on a transport are read
  off the log; a heartbeat is a payload of type \<open>heartbeat\<close>. An event argument carries
  no success flag when its first argument has no truthy property \<open>success\<close>.
\<close>

fun sent_payloads :: "obs list \<Rightarrow> jsval list" where
  "sent_payloads [] = []"
| "sent_payloads (Sent i payload # obs) = payload # sent_payloads obs"
| "sent_payloads (ob # obs) = sent_payloads obs"

definition heartbeats_sent :: "ws_manager \<Rightarrow> jsval list" where
  "heartbeats_sent this =
     filter (\<lambda>payload. field payload ''type'' = JStr ''heartbeat'') (sent_payloads (observed this))"

definition timers_of_kind :: "timer_kind \<Rightarrow> ws_manager \<Rightarrow> (nat \<times> timer_kind \<times> nat) list" where
  "timers_of_kind kind this = filter (\<lambda>entry. fst (snd entry) = kind) (timers this)"

fun connects_resolved :: "obs list \<Rightarrow> nat" where
  "connects_resolved [] = 0"
| "connects_resolved (ConnectResolved # obs) = Suc (connects_resolved obs)"
| "connects_resolved (ob # obs) = connects_resolved obs"

definition no_success :: "jsval list \<Rightarrow> bool" where
  "no_success args =
     (case getprop (arg0 args) ''success'' of Inr ok \<Rightarrow> \<not> truthy ok | Inl error \<Rightarrow> True)"

definition unopened :: "ws_manager \<Rightarrow> bool" where
  "unopened this \<longleftrightarrow>
     \<not> isConnected this \<and> heartbeatInterval this = None \<and> heartbeatTimeout this = None \<and>
     pendingMessages this = [] \<and> acks this = [] \<and> phase this \<noteq> Resuming AfterAuth \<and>
     timers_of_kind HeartbeatInterval this = [] \<and> timers_of_kind HeartbeatTimeout this = [] \<and>
     timers_of_kind AckTimeout this = [] \<and> heartbeats_sent this = [] \<and>
     connects_resolved (observed this) = 0"



section \<open>Properties of the request executor\<close>

lemma shouldRetry_HttpError [simp]: "\<not> shouldRetry this (HttpError st) attempt"
  by (simp add: shouldRetry_def)

lemma shouldRetry_less: "shouldRetry this error attempt \<Longrightarrow> attempt < maxRetries this"
  by (simp add: shouldRetry_def split: if_splits)

lemma handleResponse_cases:
  "handleResponse status options = Inr status \<or> handleResponse status options = Inl (HttpError status)"
  by (simp add: handleResponse_def)

lemma loop_exit:
  "\<not> attempt \<le> maxRetries this \<Longrightarrow>
   attempt_loop e options attempt clock lastError this = (this, clock, [], Inl lastError)"
  by (simp add: attempt_loop.simps)

lemma loop_resolved:
  assumes "attempt \<le> maxRetries this" and "axios_request (wire_of e attempt) = Resolved status"
  shows "attempt_loop e options attempt clock lastError this =
     (this\<lparr>lastRequestTime := clock + int (latency e attempt)\<rparr>, clock + int (latency e attempt),
      [Dispatch attempt clock],
      (case handleResponse status options of Inr response \<Rightarrow> Inr response
       | Inl error \<Rightarrow> Inl (Some error)))"
  using assms handleResponse_cases [of status options]
  by (subst attempt_loop.simps)
     (auto simp: try_attempt_def updateRequestTracking_def Let_def)

lemma loop_rejected_stop:
  assumes "attempt \<le> maxRetries this" and "axios_request (wire_of e attempt) = Rejected error"
    and "\<not> shouldRetry this error attempt"
  shows "attempt_loop e options attempt clock lastError this =
     (this, clock + int (latency e attempt), [Dispatch attempt clock], Inl (Some error))"
  using assms by (subst attempt_loop.simps) (simp add: try_attempt_def Let_def)

lemma loop_rejected_retry:
  assumes "axios_request (wire_of e attempt) = Rejected error"
    and "shouldRetry this error attempt"
  shows "attempt_loop e options attempt clock lastError this =
     (let rest = attempt_loop e options (attempt + 1)
                   (wait (retryDelay this * int attempt) (clock + int (latency e attempt)))
                   (Some error) this
      in (fst rest, fst (snd rest),
          Dispatch attempt clock # BackoffWait (retryDelay this * int attempt) # fst (snd (snd rest)),
          snd (snd (snd rest))))"
  using assms shouldRetry_less [OF assms(2)]
  by (subst attempt_loop.simps) (simp add: try_attempt_def Let_def)

lemma attempt_loop_state:
  assumes "\<not> got_response (Inl lastError)"
  shows "fst (attempt_loop e options attempt clock lastError this) =
     (if got_response (snd (snd (snd (attempt_loop e options attempt clock lastError this))))
      then this\<lparr>lastRequestTime := fst (snd (attempt_loop e options attempt clock lastError this))\<rparr>
      else this)"
  using assms
proof (induction "Suc (maxRetries this) - attempt" arbitrary: attempt clock lastError)
  case 0
  then show ?case by (simp add: loop_exit)
next
  case (Suc n)
  then have le: "attempt \<le> maxRetries this" by simp
  show ?case
  proof (cases "axios_request (wire_of e attempt)")
    case (Resolved status)
    then show ?thesis
      using le handleResponse_cases [of status options] by (auto simp: loop_resolved)
  next
    case (Rejected error)
    note rej = this
    have ax: "\<not> got_response (Inl (Some error))"
      using rej by (cases "wire_of e attempt") (auto split: if_splits)
    show ?thesis
    proof (cases "shouldRetry this error attempt")
      case True
      have "n = Suc (maxRetries this) - (attempt + 1)" using Suc.hyps(2) by simp
      from Suc.hyps(1) [OF this ax] show ?thesis
        by (simp add: loop_rejected_retry [OF rej True] Let_def)
    next
      case False
      then show ?thesis using le rej ax by (simp add: loop_rejected_stop)
    qed
  qed
qed

lemma attempt_loop_trace:
  fixes e options this
  defines "tr attempt clock lastError \<equiv> fst (snd (snd (attempt_loop e options attempt clock lastError this)))"
  shows "(attempt \<le> maxRetries this \<longrightarrow> (\<exists>tr'. tr attempt clock lastError = Dispatch attempt clock # tr')) \<and>
     backoff_before k (tr attempt clock lastError) =
       (if attempt < k \<and> k \<in> set (dispatched (tr attempt clock lastError))
        then Some (retryDelay this * int (k - 1)) else None) \<and>
     (attempt \<le> maxRetries this \<longrightarrow> is_dispatch (last (tr attempt clock lastError))) \<and>
     filter is_rate_wait (tr attempt clock lastError) = [] \<and>
     (\<forall>j \<in> set (dispatched (tr attempt clock lastError)). attempt \<le> j \<and> j \<le> maxRetries this)"
proof (induction "Suc (maxRetries this) - attempt" arbitrary: attempt clock lastError)
  case 0
  then show ?case by (simp add: loop_exit tr_def)
next
  case (Suc n)
  then have le: "attempt \<le> maxRetries this" by simp
  show ?case
  proof (cases "axios_request (wire_of e attempt)")
    case (Resolved status)
    then show ?thesis
      using le by (simp add: loop_resolved tr_def is_dispatch_def is_rate_wait_def)
  next
    case (Rejected error)
    note rej = this
    show ?thesis
    proof (cases "shouldRetry this error attempt")
      case True
      have n: "n = Suc (maxRetries this) - (attempt + 1)" using Suc.hyps(2) by simp
      have le': "attempt + 1 \<le> maxRetries this" using shouldRetry_less [OF True] by simp
      define c' where "c' = wait (retryDelay this * int attempt) (clock + int (latency e attempt))"
      have eq: "tr attempt clock lastError =
          Dispatch attempt clock # BackoffWait (retryDelay this * int attempt) # tr (attempt + 1) c' (Some error)"
        by (simp add: tr_def loop_rejected_retry [OF rej True] Let_def c'_def)
      from Suc.hyps(1) [OF n, of c' "Some error"] le'
      obtain tr' where hd: "tr (attempt + 1) c' (Some error) = Dispatch (attempt + 1) c' # tr'"
        by auto
      from Suc.hyps(1) [OF n, of c' "Some error"] le'
      have ih: "backoff_before k (Dispatch (attempt + 1) c' # tr') =
          (if attempt + 1 < k \<and> k \<in> set (dispatched (Dispatch (attempt + 1) c' # tr'))
           then Some (retryDelay this * int (k - 1)) else None)"
          "is_dispatch (last (Dispatch (attempt + 1) c' # tr'))"
          "filter is_rate_wait (Dispatch (attempt + 1) c' # tr') = []"
          "\<forall>j \<in> set (dispatched (Dispatch (attempt + 1) c' # tr')). attempt + 1 \<le> j \<and> j \<le> maxRetries this"
        unfolding hd by blast+
      have b: "backoff_before k (Dispatch attempt clock # BackoffWait (retryDelay this * int attempt) #
                 Dispatch (attempt + 1) c' # tr') =
          (if attempt + 1 = k then Some (retryDelay this * int attempt)
           else backoff_before k (Dispatch (attempt + 1) c' # tr'))"
        by simp
      have d: "dispatched (Dispatch attempt clock # BackoffWait (retryDelay this * int attempt) #
                 Dispatch (attempt + 1) c' # tr') = attempt # dispatched (Dispatch (attempt + 1) c' # tr')"
        by simp
      have "backoff_before k (tr attempt clock lastError) =
       (if attempt < k \<and> k \<in> set (dispatched (tr attempt clock lastError))
        then Some (retryDelay this * int (k - 1)) else None)"
      proof -
        have m: "attempt + 1 \<in> set (dispatched (Dispatch (attempt + 1) c' # tr'))" by simp
        show ?thesis
          unfolding eq hd b d using ih(1,4) m
          by (auto simp del: backoff_before.simps dispatched.simps)
      qed
      moreover have "is_dispatch (last (tr attempt clock lastError))"
        unfolding eq hd using ih(2) by simp
      moreover have "filter is_rate_wait (tr attempt clock lastError) = []"
        unfolding eq hd using ih(3) by (simp add: is_rate_wait_def)
      moreover have "\<forall>j \<in> set (dispatched (tr attempt clock lastError)). attempt \<le> j \<and> j \<le> maxRetries this"
        unfolding eq hd d using ih(4) le by (auto simp del: dispatched.simps)
      moreover have "\<exists>tr'. tr attempt clock lastError = Dispatch attempt clock # tr'"
        unfolding eq by simp
      ultimately show ?thesis by blast
    next
      case False
      then show ?thesis using le rej
        by (simp add: loop_rejected_stop tr_def is_dispatch_def is_rate_wait_def)
    qed
  qed
qed

lemma makeRequest_trace:
  "trace_of (makeRequest method url e options now this) =
     snd (applyRateLimit now this) @
     fst (snd (snd (attempt_loop e options 1 (fst (applyRateLimit now this)) None
        (this\<lparr>requestCount := requestCount this + 1\<rparr>))))"
  by (simp add: makeRequest_def trace_of_def Let_def applyRateLimit_def)

lemma applyRateLimit_eq:
  "applyRateLimit now this =
     (if now - lastRequestTime this < rateLimitDelay this
      then now + timer_delay (rateLimitDelay this - (now - lastRequestTime this)) else now,
      if now - lastRequestTime this < rateLimitDelay this
      then [RateLimitWait (rateLimitDelay this - (now - lastRequestTime this))] else [])"
  by (simp add: applyRateLimit_def Let_def wait_def)

lemma backoff_before_pre [simp]:
  "backoff_before k ((if b then [RateLimitWait w] else []) @ tr) = backoff_before k tr"
  by simp

lemma dispatched_pre [simp]:
  "dispatched ((if b then [RateLimitWait w] else []) @ tr) = dispatched tr"
  by simp

subsection \<open>Retry policy\<close>

text \<open>
  Claim C1: attempts that fail at the transport level or are answered 5xx or 429 are
  retried up to the configured maximum, and any other 4xx surfaces at once.
  The code departs from this on 429. A 429 passes \<open>validateStatus\<close>, so axios resolves
  and \<open>_handleResponse\<close> throws the error of \<open>_createHttpError\<close>, which has no
  \<open>response\<close> property; the test \<open>error.response.status === 429\<close> of \<open>_shouldRetry\<close>
  is never reached with it. Whatever the settings (with at least one attempt allowed), a
  request whose first attempt is answered 429 is dispatched exactly once and fails with a
  \<open>NetworkError\<close> whose status code is \<open>null\<close>.
\<close>

theorem rate_limited_reply_not_retried:
  assumes "1 \<le> maxRetries this" and "wire_of e 1 = Replied 429"
  shows "dispatched (trace_of (makeRequest method url e options now this)) = [1] \<and>
         result_of (makeRequest method url e options now this) =
           Inl (NetworkError None (HttpError 429) url method)"
proof -
  have ax: "axios_request (wire_of e 1) = Resolved 429"
    using assms(2) by (simp add: validateStatus_def)
  have hr: "handleResponse 429 options = Inl (HttpError 429)"
    by (simp add: handleResponse_def)
  have lp: "attempt_loop e options (Suc 0) c None (this\<lparr>requestCount := Suc (requestCount this)\<rparr>) =
      (this\<lparr>requestCount := Suc (requestCount this), lastRequestTime := c + int (latency e (Suc 0))\<rparr>,
       c + int (latency e (Suc 0)), [Dispatch (Suc 0) c], Inl (Some (HttpError 429)))" for c
    using loop_resolved [of "Suc 0" "this\<lparr>requestCount := Suc (requestCount this)\<rparr>" e 429 options c None]
      ax assms(1) by (simp add: hr)
  show ?thesis
    by (simp add: makeRequest_def trace_of_def result_of_def Let_def applyRateLimit_eq lp)
qed

theorem rate_limited_reply_not_retried_witness:
  "dispatched (trace_of (makeRequest ''GET'' ''/graphql'' (always (Replied 429) 50) default_options
      1000000 new_NetworkManager)) = [1] \<and>
   result_of (makeRequest ''GET'' ''/graphql'' (always (Replied 429) 50) default_options
      1000000 new_NetworkManager) = Inl (NetworkError None (HttpError 429) ''/graphql'' ''GET'')"
proof -
  have h1: "1 \<le> maxRetries new_NetworkManager" by (simp add: new_NetworkManager_def)
  have h2: "wire_of (always (Replied 429) 50) 1 = Replied 429" by (simp add: always_def)
  show ?thesis by (rule rate_limited_reply_not_retried [OF h1 h2])
qed

subsection \<open>Backoff\<close>

text \<open>
  Claim C3, as amended: the backoff suspension that precedes attempt \<open>k\<close>, for every
  dispatched attempt \<open>k \<ge> 2\<close>, asks for \<open>k - 1\<close> times the base retry delay (the loop waits
  \<open>retryDelay * attempt\<close> after the failed attempt); no backoff suspension precedes the
  first attempt, and the trace of a request ends with a dispatch, so none follows the
  final attempt.
\<close>

theorem backoff_follows_previous_attempt:
  "backoff_before k (trace_of (makeRequest method url e options now this)) =
     (if 2 \<le> k \<and> k \<in> set (dispatched (trace_of (makeRequest method url e options now this)))
      then Some (retryDelay this * int (k - 1)) else None) \<and>
   (1 \<le> maxRetries this \<longrightarrow>
      is_dispatch (last (trace_of (makeRequest method url e options now this))))"
proof -
  let ?m = "this\<lparr>requestCount := requestCount this + 1\<rparr>"
  let ?tr = "fst (snd (snd (attempt_loop e options 1 (fst (applyRateLimit now this)) None ?m)))"
  note L = attempt_loop_trace [of 1 ?m e options "fst (applyRateLimit now this)" None k]
  have b: "backoff_before k ?tr =
      (if 1 < k \<and> k \<in> set (dispatched ?tr) then Some (retryDelay this * int (k - 1)) else None)"
    using L by simp
  have ne: "1 \<le> maxRetries this \<Longrightarrow> ?tr \<noteq> [] \<and> is_dispatch (last ?tr)"
    using L by auto
  have k: "(2 \<le> k) = (1 < k)" by auto
  show ?thesis
    unfolding makeRequest_trace applyRateLimit_eq snd_conv fst_conv backoff_before_pre dispatched_pre k
    using b ne unfolding applyRateLimit_eq fst_conv by (auto simp del: backoff_before.simps)
qed

text \<open>The scenario of 503 replies, evaluated.\<close>

lemma all_503_trace:
  "trace_of all_503 = [Dispatch 1 1000000, BackoffWait 2000, Dispatch 2 1002050, BackoffWait 4000, Dispatch 3 1006100]"
  by code_simp

lemma after_503_trace:
  "trace_of after_503 = [Dispatch 1 1006150, BackoffWait 2000, Dispatch 2 1008200, BackoffWait 4000, Dispatch 3 1012250]"
  by code_simp

text \<open>The scenario of the over-long rate-limit delay, evaluated.\<close>

lemma first_200_trace:
  "trace_of first_200 = [RateLimitWait 2999000000, Dispatch 1 1000001]"
  by code_simp

lemma second_200_trace:
  "trace_of second_200 = [RateLimitWait 3000000000, Dispatch 1 1000052]"
  by code_simp

theorem backoff_follows_previous_attempt_witness:
  "backoff_before 3 (trace_of all_503) = Some 4000 \<and> is_dispatch (last (trace_of all_503))"
proof -
  have d: "2 \<le> (3::nat) \<and> 3 \<in> set (dispatched (trace_of all_503))"
    by (simp add: all_503_trace)
  have m: "1 \<le> maxRetries new_NetworkManager" by (simp add: new_NetworkManager_def)
  have r: "retryDelay new_NetworkManager * int (3 - 1) = 4000" by (simp add: new_NetworkManager_def)
  show ?thesis
    using backoff_follows_previous_attempt [of 3 "''GET''" "''/graphql''" "always (Replied 503) 50"
        default_options 1000000 new_NetworkManager] d m r
    unfolding all_503_def [symmetric] by simp
qed

text \<open>
  As stated (\<open>k\<close> times the base delay before attempt \<open>k\<close>) the claim fails: on the default
  settings the suspension before attempt 2 asks for 2000 ms, once the base delay.
\<close>

theorem backoff_twice_base_counterexample:
  "2 \<in> set (dispatched (trace_of all_503)) \<and>
   backoff_before 2 (trace_of all_503) = Some 2000 \<and>
   backoff_before 2 (trace_of all_503) \<noteq> Some (2 * retryDelay new_NetworkManager)"
  by (simp add: all_503_trace new_NetworkManager_def)

subsection \<open>Rate limiting\<close>

text \<open>
  The spacing of claim C4 fails between the last attempt of a failed request and the first
  attempt of the next one: the 503 replies never reach \<open>_updateRequestTracking\<close>, so the
  second request is not suspended, and its first attempt starts 50 ms after the third
  attempt of the first request, below the rate-limit delay of 1000 ms. It fails as well
  when the suspension asked for is longer than a timer can run: with a rate-limit delay of
  3000000000 ms the suspension ends after 1 ms, and two requests answered 200 start 51 ms
  apart.
\<close>

theorem spacing_counterexample:
  "dispatch_times (trace_of all_503 @ trace_of after_503) =
     [1000000, 1002050, 1006100, 1006150, 1008200, 1012250] \<and>
   \<not> spaced (rateLimitDelay new_NetworkManager) (dispatch_times (trace_of all_503 @ trace_of after_503)) \<and>
   trace_of first_200 = [RateLimitWait 2999000000, Dispatch 1 1000001] \<and>
   trace_of second_200 = [RateLimitWait 3000000000, Dispatch 1 1000052] \<and>
   \<not> spaced (rateLimitDelay long_delay) (dispatch_times (trace_of first_200 @ trace_of second_200))"
  by (simp add: all_503_trace after_503_trace first_200_trace second_200_trace
      new_NetworkManager_def long_delay_def)

text \<open>
  The update of claim C5 on every attempt fails: three attempts answered 503 are
  dispatched and the last-dispatch time keeps its initial value.
\<close>

theorem tracking_counterexample:
  "dispatched (trace_of all_503) = [1, 2, 3] \<and>
   lastRequestTime (fst all_503) = lastRequestTime new_NetworkManager"
  by code_simp

text \<open>
  Claim C5, as amended: an attempt updates the shared last-dispatch time exactly when
  axios resolves it, that is when a reply with a status below 500 arrived, whether
  \<open>_handleResponse\<close> then accepts the reply or throws; an attempt that fails at the
  transport level or is answered 5xx leaves the executor unchanged. Over a whole logical
  request the executor changes in the request counter, incremented once, and in that
  timestamp only: the timestamp is the completion time of the request when its last
  attempt received such a reply, and is unchanged otherwise.
\<close>

theorem tracking_updated_on_response_only:
  "fst (try_attempt e options attempt done this) =
     (if rejected_by_axios (wire_of e attempt) then this else this\<lparr>lastRequestTime := done\<rparr>) \<and>
   fst (makeRequest method url e options now this) =
     (if response_received (result_of (makeRequest method url e options now this))
      then this\<lparr>requestCount := requestCount this + 1,
                lastRequestTime := time_of (makeRequest method url e options now this)\<rparr>
      else this\<lparr>requestCount := requestCount this + 1\<rparr>)"
proof -
  let ?m = "this\<lparr>requestCount := requestCount this + 1\<rparr>"
  let ?run = "attempt_loop e options 1 (fst (applyRateLimit now this)) None ?m"
  have a: "fst (try_attempt e options attempt done this) =
     (if rejected_by_axios (wire_of e attempt) then this else this\<lparr>lastRequestTime := done\<rparr>)"
    by (cases "wire_of e attempt")
       (simp_all add: try_attempt_def updateRequestTracking_def validateStatus_def)
  have g: "response_received (case r of Inr response \<Rightarrow> Inr response
             | Inl lastError \<Rightarrow> Inl (createNetworkError lastError url method)) = got_response r" for r
  proof (cases r)
    case (Inl lastError)
    then show ?thesis
    proof (cases lastError)
      case None
      with Inl show ?thesis by simp
    next
      case (Some error)
      with Inl show ?thesis by (cases error) simp_all
    qed
  next
    case (Inr response)
    then show ?thesis by simp
  qed
  have s: "fst ?run = (if got_response (snd (snd (snd ?run)))
      then ?m\<lparr>lastRequestTime := fst (snd ?run)\<rparr> else ?m)"
    by (rule attempt_loop_state) simp
  have b: "fst (makeRequest method url e options now this) =
     (if response_received (result_of (makeRequest method url e options now this))
      then this\<lparr>requestCount := requestCount this + 1,
                lastRequestTime := time_of (makeRequest method url e options now this)\<rparr>
      else this\<lparr>requestCount := requestCount this + 1\<rparr>)"
    unfolding makeRequest_def result_of_def time_of_def Let_def fst_conv snd_conv g
    using s unfolding applyRateLimit_def Let_def by (simp split: if_splits)
  from a b show ?thesis by blast
qed

theorem tracking_updated_on_response_only_witness:
  "fst (try_attempt (always (Replied 404) 50) default_options 1 1000050 new_NetworkManager) =
     new_NetworkManager\<lparr>lastRequestTime := 1000050\<rparr> \<and>
   fst (makeRequest ''GET'' ''/graphql'' (always (Replied 404) 50) default_options 1000000
         new_NetworkManager) =
     new_NetworkManager\<lparr>requestCount := requestCount new_NetworkManager + 1,
        lastRequestTime := 1000050\<rparr>"
proof -
  have w: "\<not> rejected_by_axios (wire_of (always (Replied 404) 50) 1)"
    by (simp add: always_def)
  have r: "response_received (result_of (makeRequest ''GET'' ''/graphql'' (always (Replied 404) 50)
      default_options 1000000 new_NetworkManager))"
    by code_simp
  have t: "time_of (makeRequest ''GET'' ''/graphql'' (always (Replied 404) 50)
      default_options 1000000 new_NetworkManager) = 1000050"
    by code_simp
  show ?thesis
    using tracking_updated_on_response_only [of "always (Replied 404) 50" default_options 1 1000050
        new_NetworkManager "''GET''" "''/graphql''" 1000000] w r t
    by simp
qed

text \<open>
  Claim C4, as amended: the rate-limit suspension is applied at most once per logical
  request, before its first attempt and never before a retry, against the single
  per-client timestamp whatever the method and target. When the time since the recorded
  last-dispatch time is below the rate-limit delay, the request asks for a suspension of
  the remainder and its first attempt starts when the timer of that suspension has run;
  otherwise it starts at once. When the remainder is at most \<open>TIMEOUT_MAX\<close>, the longest
  delay that a timer runs, the first attempt starts at
  \<open>max now (lastRequestTime + rateLimitDelay)\<close>, hence no earlier than the rate-limit
  delay after the recorded last-dispatch time.
\<close>

theorem rate_limit_once_before_first_attempt:
  assumes "1 \<le> maxRetries this"
  shows "(\<exists>rest. trace_of (makeRequest method url e options now this) =
            (if now - lastRequestTime this < rateLimitDelay this
             then [RateLimitWait (rateLimitDelay this - (now - lastRequestTime this))] else []) @
            Dispatch 1
              (if now - lastRequestTime this < rateLimitDelay this
               then now + timer_delay (rateLimitDelay this - (now - lastRequestTime this))
               else now) # rest \<and>
            filter is_rate_wait rest = []) \<and>
         (rateLimitDelay this - (now - lastRequestTime this) \<le> TIMEOUT_MAX \<longrightarrow>
            (if now - lastRequestTime this < rateLimitDelay this
             then now + timer_delay (rateLimitDelay this - (now - lastRequestTime this))
             else now) = max now (lastRequestTime this + rateLimitDelay this)) \<and>
         trace_of (makeRequest method' url' e options now this) =
           trace_of (makeRequest method url e options now this)"
proof -
  let ?m = "this\<lparr>requestCount := requestCount this + 1\<rparr>"
  let ?c = "if now - lastRequestTime this < rateLimitDelay this
            then now + timer_delay (rateLimitDelay this - (now - lastRequestTime this)) else now"
  let ?tr = "fst (snd (snd (attempt_loop e options 1 ?c None ?m)))"
  note L = attempt_loop_trace [of 1 ?m e options ?c None 0]
  from L assms obtain rest where hd: "?tr = Dispatch 1 ?c # rest" by auto
  from L have "filter is_rate_wait ?tr = []" by blast
  then have f: "filter is_rate_wait rest = []"
    unfolding hd by (simp add: is_rate_wait_def)
  have t: "trace_of (makeRequest method url e options now this) =
            (if now - lastRequestTime this < rateLimitDelay this
             then [RateLimitWait (rateLimitDelay this - (now - lastRequestTime this))] else []) @
            Dispatch 1 ?c # rest"
    unfolding makeRequest_trace applyRateLimit_eq fst_conv snd_conv hd ..
  have b: "rateLimitDelay this - (now - lastRequestTime this) \<le> TIMEOUT_MAX \<longrightarrow>
      ?c = max now (lastRequestTime this + rateLimitDelay this)"
    by (simp add: timer_delay_def max_def)
  have same: "trace_of (makeRequest method' url' e options now this) =
           trace_of (makeRequest method url e options now this)"
    unfolding makeRequest_trace ..
  from t f b same show ?thesis by blast
qed

theorem rate_limit_once_before_first_attempt_witness:
  "(\<exists>rest. trace_of (makeRequest ''GET'' ''/graphql'' (always (Replied 503) 50) default_options
              600 (new_NetworkManager\<lparr>lastRequestTime := 100\<rparr>)) =
            RateLimitWait 500 # Dispatch 1 1100 # rest \<and> filter is_rate_wait rest = []) \<and>
   (1000 - (600 - 100) \<le> TIMEOUT_MAX \<and> (1100::int) = max 600 (100 + 1000)) \<and>
   trace_of (makeRequest ''POST'' ''/batch'' (always (Replied 503) 50) default_options
              600 (new_NetworkManager\<lparr>lastRequestTime := 100\<rparr>)) =
   trace_of (makeRequest ''GET'' ''/graphql'' (always (Replied 503) 50) default_options
              600 (new_NetworkManager\<lparr>lastRequestTime := 100\<rparr>)) \<and>
   (\<exists>rest. trace_of (makeRequest ''GET'' ''/graphql'' (always (Replied 200) 50) default_options
              1000000 long_delay) =
            RateLimitWait 2999000000 # Dispatch 1 1000001 # rest \<and> filter is_rate_wait rest = [])"
proof -
  have m: "1 \<le> maxRetries (new_NetworkManager\<lparr>lastRequestTime := 100\<rparr>)"
    "1 \<le> maxRetries long_delay"
    by (simp_all add: new_NetworkManager_def long_delay_def)
  have a: "(\<exists>rest. trace_of (makeRequest ''GET'' ''/graphql'' (always (Replied 503) 50) default_options
              600 (new_NetworkManager\<lparr>lastRequestTime := 100\<rparr>)) =
            RateLimitWait 500 # Dispatch 1 1100 # rest \<and> filter is_rate_wait rest = []) \<and>
   (1000 - (600 - 100) \<le> TIMEOUT_MAX \<and> (1100::int) = max 600 (100 + 1000)) \<and>
   trace_of (makeRequest ''POST'' ''/batch'' (always (Replied 503) 50) default_options
              600 (new_NetworkManager\<lparr>lastRequestTime := 100\<rparr>)) =
   trace_of (makeRequest ''GET'' ''/graphql'' (always (Replied 503) 50) default_options
              600 (new_NetworkManager\<lparr>lastRequestTime := 100\<rparr>))"
    using rate_limit_once_before_first_attempt [OF m(1), of "''GET''" "''/graphql''"
        "always (Replied 503) 50" default_options 600 "''POST''" "''/batch''"]
    by (simp add: new_NetworkManager_def timer_delay_def TIMEOUT_MAX_def)
  have b: "\<exists>rest. trace_of (makeRequest ''GET'' ''/graphql'' (always (Replied 200) 50) default_options
              1000000 long_delay) =
            RateLimitWait 2999000000 # Dispatch 1 1000001 # rest \<and> filter is_rate_wait rest = []"
    using rate_limit_once_before_first_attempt [OF m(2), of "''GET''" "''/graphql''"
        "always (Replied 200) 50" default_options 1000000 "''GET''" "''/graphql''"]
    by (simp add: new_NetworkManager_def long_delay_def timer_delay_def TIMEOUT_MAX_def)
  from a b show ?thesis by blast
qed

subsection \<open>Retried failures\<close>

lemma shouldRetry_retryable:
  "retryable w \<Longrightarrow> axios_request w = Rejected error \<Longrightarrow>
   shouldRetry this error attempt = (attempt < maxRetries this)"
  by (cases w) (auto simp: shouldRetry_def validateStatus_def split: if_splits)

lemma retryable_rejected: "retryable w \<Longrightarrow> \<exists>error. axios_request w = Rejected error"
  by (cases w) (auto simp: validateStatus_def)

lemma attempt_loop_exhausts:
  assumes "1 \<le> attempt" "attempt \<le> maxRetries this"
    and "\<forall>k. attempt \<le> k \<and> k \<le> maxRetries this \<longrightarrow> retryable (wire_of e k)"
  shows "dispatched (fst (snd (snd (attempt_loop e options attempt clock lastError this)))) =
           [attempt..<Suc (maxRetries this)] \<and>
         (\<exists>error. axios_request (wire_of e (maxRetries this)) = Rejected error \<and>
            snd (snd (snd (attempt_loop e options attempt clock lastError this))) = Inl (Some error)) \<and>
         fst (attempt_loop e options attempt clock lastError this) = this"
  using assms
proof (induction "maxRetries this - attempt" arbitrary: attempt clock lastError)
  case 0
  then have eq: "attempt = maxRetries this" by simp
  from 0 obtain error where r: "axios_request (wire_of e attempt) = Rejected error"
    using retryable_rejected [of "wire_of e attempt"] by auto
  have "\<not> shouldRetry this error attempt"
    by (simp add: shouldRetry_def eq)
  then show ?case
    using loop_rejected_stop [OF "0.prems"(2) r, of options clock lastError] r
    by (simp add: eq)
next
  case (Suc n)
  then have lt: "attempt < maxRetries this" by simp
  from Suc.prems obtain error where r: "axios_request (wire_of e attempt) = Rejected error"
    using retryable_rejected [of "wire_of e attempt"] by auto
  have sr: "shouldRetry this error attempt"
    using shouldRetry_retryable [OF _ r, of this attempt] Suc.prems lt by simp
  let ?c = "wait (retryDelay this * int attempt) (clock + int (latency e attempt))"
  have ih: "dispatched (fst (snd (snd (attempt_loop e options (attempt + 1) ?c (Some error) this)))) =
           [attempt + 1..<Suc (maxRetries this)] \<and>
         (\<exists>error'. axios_request (wire_of e (maxRetries this)) = Rejected error' \<and>
            snd (snd (snd (attempt_loop e options (attempt + 1) ?c (Some error) this))) = Inl (Some error')) \<and>
         fst (attempt_loop e options (attempt + 1) ?c (Some error) this) = this"
    using Suc.hyps(2) lt Suc.prems(3) by (intro Suc.hyps(1)) auto
  have up: "[attempt..<Suc (maxRetries this)] = attempt # [attempt + 1..<Suc (maxRetries this)]"
    using lt by (simp add: upt_conv_Cons)
  have step: "attempt_loop e options attempt clock lastError this =
      (let rest = attempt_loop e options (attempt + 1) ?c (Some error) this
       in (fst rest, fst (snd rest),
           Dispatch attempt clock # BackoffWait (retryDelay this * int attempt) # fst (snd (snd rest)),
           snd (snd (snd rest))))"
    by (rule loop_rejected_retry [OF r sr])
  show ?case
    unfolding step Let_def fst_conv snd_conv up using ih
    by (simp del: upt_Suc)
qed


text \<open>
  The part of the retry policy that the code implements. When every attempt of a logical
  request fails at the transport level with one of the four listed codes or is answered
  5xx, all the configured attempts are dispatched, in order, and the request fails with
  the \<open>NetworkError\<close> of the last failure.
\<close>

theorem retryable_failures_exhaust_attempts:
  assumes "1 \<le> maxRetries this"
    and "\<forall>k. 1 \<le> k \<and> k \<le> maxRetries this \<longrightarrow> retryable (wire_of e k)"
  shows "dispatched (trace_of (makeRequest method url e options now this)) =
           [1..<Suc (maxRetries this)] \<and>
         (\<exists>error. axios_request (wire_of e (maxRetries this)) = Rejected error \<and>
            result_of (makeRequest method url e options now this) =
              Inl (NetworkError (err_response_status error) error url method))"
proof -
  let ?m = "this\<lparr>requestCount := requestCount this + 1\<rparr>"
  let ?c = "if now - lastRequestTime this < rateLimitDelay this
            then now + timer_delay (rateLimitDelay this - (now - lastRequestTime this)) else now"
  have "dispatched (fst (snd (snd (attempt_loop e options 1 ?c None ?m)))) =
           [1..<Suc (maxRetries ?m)] \<and>
         (\<exists>error. axios_request (wire_of e (maxRetries ?m)) = Rejected error \<and>
            snd (snd (snd (attempt_loop e options 1 ?c None ?m))) = Inl (Some error)) \<and>
         fst (attempt_loop e options 1 ?c None ?m) = ?m"
    using assms by (intro attempt_loop_exhausts) simp_all
  then show ?thesis
    unfolding makeRequest_def trace_of_def result_of_def Let_def applyRateLimit_eq fst_conv snd_conv
    by (auto simp del: upt_Suc)
qed

theorem retryable_failures_exhaust_attempts_witness:
  "dispatched (trace_of all_503) = [1..<Suc 3] \<and>
   (\<exists>error. axios_request (wire_of (always (Replied 503) 50) 3) = Rejected error \<and>
      result_of all_503 = Inl (NetworkError (err_response_status error) error ''/graphql'' ''GET''))"
proof -
  have m: "1 \<le> maxRetries new_NetworkManager" "maxRetries new_NetworkManager = 3"
    by (simp_all add: new_NetworkManager_def)
  have r: "\<forall>k. 1 \<le> k \<and> k \<le> maxRetries new_NetworkManager \<longrightarrow>
      retryable (wire_of (always (Replied 503) 50) k)"
    by (simp add: always_def)
  show ?thesis
    using retryable_failures_exhaust_attempts [OF m(1) r, of "''GET''" "''/graphql''" default_options
        1000000]
    unfolding all_503_def m(2) by simp
qed

text \<open>
  When the first attempt of a logical request is answered 4xx, it is the only attempt:
  the request fails at once with a \<open>NetworkError\<close> that wraps the error of the response
  and has no status code.
\<close>

theorem client_error_surfaces_at_once:
  assumes "1 \<le> maxRetries this" and "wire_of e 1 = Replied status"
    and "400 \<le> status" and "status < 500"
  shows "dispatched (trace_of (makeRequest method url e options now this)) = [1] \<and>
         result_of (makeRequest method url e options now this) =
           Inl (NetworkError None (HttpError status) url method)"
proof -
  have ax: "axios_request (wire_of e 1) = Resolved status"
    using assms(2,4) by (simp add: validateStatus_def)
  have hr: "handleResponse status options = Inl (HttpError status)"
    using assms(3) by (simp add: handleResponse_def)
  have lp: "attempt_loop e options (Suc 0) c None (this\<lparr>requestCount := Suc (requestCount this)\<rparr>) =
      (this\<lparr>requestCount := Suc (requestCount this), lastRequestTime := c + int (latency e (Suc 0))\<rparr>,
       c + int (latency e (Suc 0)), [Dispatch (Suc 0) c], Inl (Some (HttpError status)))" for c
    using loop_resolved [of "Suc 0" "this\<lparr>requestCount := Suc (requestCount this)\<rparr>" e status options c None]
      ax assms(1) by (simp add: hr)
  show ?thesis
    by (simp add: makeRequest_def trace_of_def result_of_def Let_def applyRateLimit_eq lp)
qed

theorem client_error_surfaces_at_once_witness:
  "dispatched (trace_of (makeRequest ''GET'' ''/graphql'' (always (Replied 404) 50) default_options
      1000000 new_NetworkManager)) = [1] \<and>
   result_of (makeRequest ''GET'' ''/graphql'' (always (Replied 404) 50) default_options
      1000000 new_NetworkManager) = Inl (NetworkError None (HttpError 404) ''/graphql'' ''GET'')"
proof -
  have h: "1 \<le> maxRetries new_NetworkManager" "wire_of (always (Replied 404) 50) 1 = Replied 404"
    "400 \<le> (404::nat)" "(404::nat) < 500"
    by (simp_all add: new_NetworkManager_def always_def)
  show ?thesis by (rule client_error_surfaces_at_once [OF h])
qed

section \<open>Properties of the channel\<close>

lemma core_fields:
  assumes "core s' = core s"
  shows "isConnected s' = isConnected s" "isConnecting s' = isConnecting s"
    "reconnectAttempts s' = reconnectAttempts s" "maxReconnectAttempts s' = maxReconnectAttempts s"
    "reconnectDelay s' = reconnectDelay s" "heartbeatInterval s' = heartbeatInterval s"
    "heartbeatTimeout s' = heartbeatTimeout s" "ws s' = ws s"
    "pendingMessages s' = pendingMessages s" "autoReconnect s' = autoReconnect s"
    "accessToken s' = accessToken s" "deviceId s' = deviceId s" "clientId s' = clientId s"
    "clientListeners s' = clientListeners s" "nextTimer s' = nextTimer s" "sockets s' = sockets s"
proof -
  have "isConnected (core s') = isConnected (core s)" using assms by simp
  then show "isConnected s' = isConnected s" by (simp add: core_def)
  have "isConnecting (core s') = isConnecting (core s)" using assms by simp
  then show "isConnecting s' = isConnecting s" by (simp add: core_def)
  have "reconnectAttempts (core s') = reconnectAttempts (core s)" using assms by simp
  then show "reconnectAttempts s' = reconnectAttempts s" by (simp add: core_def)
  have "maxReconnectAttempts (core s') = maxReconnectAttempts (core s)" using assms by simp
  then show "maxReconnectAttempts s' = maxReconnectAttempts s" by (simp add: core_def)
  have "reconnectDelay (core s') = reconnectDelay (core s)" using assms by simp
  then show "reconnectDelay s' = reconnectDelay s" by (simp add: core_def)
  have "heartbeatInterval (core s') = heartbeatInterval (core s)" using assms by simp
  then show "heartbeatInterval s' = heartbeatInterval s" by (simp add: core_def)
  have "heartbeatTimeout (core s') = heartbeatTimeout (core s)" using assms by simp
  then show "heartbeatTimeout s' = heartbeatTimeout s" by (simp add: core_def)
  have "ws (core s') = ws (core s)" using assms by simp
  then show "ws s' = ws s" by (simp add: core_def)
  have "pendingMessages (core s') = pendingMessages (core s)" using assms by simp
  then show "pendingMessages s' = pendingMessages s" by (simp add: core_def)
  have "autoReconnect (core s') = autoReconnect (core s)" using assms by simp
  then show "autoReconnect s' = autoReconnect s" by (simp add: core_def)
  have "accessToken (core s') = accessToken (core s)" using assms by simp
  then show "accessToken s' = accessToken s" by (simp add: core_def)
  have "deviceId (core s') = deviceId (core s)" using assms by simp
  then show "deviceId s' = deviceId s" by (simp add: core_def)
  have "clientId (core s') = clientId (core s)" using assms by simp
  then show "clientId s' = clientId s" by (simp add: core_def)
  have "clientListeners (core s') = clientListeners (core s)" using assms by simp
  then show "clientListeners s' = clientListeners s" by (simp add: core_def)
  have "nextTimer (core s') = nextTimer (core s)" using assms by simp
  then show "nextTimer s' = nextTimer s" by (simp add: core_def)
  have "sockets (core s') = sockets (core s)" using assms by simp
  then show "sockets s' = sockets s" by (simp add: core_def)
qed

lemma core_basic [simp]:
  "core (observe ob s) = core s" "core (clearTimer t s) = core s" "core (settle t p s) = core s"
  "core (removeListener n l s) = core s" "core (on n l s) = core s"
  "core (resolve_auth t r s) = core s"
  by (simp_all add: core_def observe_def clearTimer_def settle_def removeListener_def on_def
      resolve_auth_def split: connect_phase.splits)

lemma core_invoke [simp]: "core (fst (invoke l n a s)) = core s"
  by (cases l) (simp_all add: Let_def split: sum.splits)

lemma seq_simps [simp]:
  "seq (s, None) f = f s" "seq (s, Some e) f = (s, Some e)"
  by (simp_all add: seq_def)

lemma fst_seq: "fst (seq r f) = (case snd r of Some e \<Rightarrow> fst r | None \<Rightarrow> fst (f (fst r)))"
  by (simp add: seq_def split: option.splits)

lemma core_seq:
  assumes "core (fst r) = core s" and "\<And>s1. core (fst (f s1)) = core s1"
  shows "core (fst (seq r f)) = core s"
  using assms by (simp add: fst_seq split: option.splits)

lemma core_run_listeners [simp]: "core (fst (run_listeners ls n a s)) = core s"
  by (induction ls arbitrary: s) (simp_all add: core_seq)

lemma core_emit [simp]: "core (fst (emit n a s)) = core s"
  by (simp add: emit_def Let_def)

lemma core_client_emit [simp]: "core (fst (client_emit n a s)) = core s"
  by (simp add: client_emit_def Let_def)

lemmas invoke_fields [simp] = core_fields [OF core_invoke]
lemmas run_listeners_fields [simp] = core_fields [OF core_run_listeners]
lemmas emit_fields [simp] = core_fields [OF core_emit]
lemmas client_emit_fields [simp] = core_fields [OF core_client_emit]

text \<open>
  A relation between the states before and after that every elementary effect of a
  listener respects is respected by the invocation of any list of listeners.
\<close>

lemma run_listeners_rel:
  assumes refl: "\<And>s. R s s"
    and trans: "\<And>s s' s''. R s s' \<Longrightarrow> R s' s'' \<Longrightarrow> R s s''"
    and called: "\<And>s i n. R s (observe (Called i n) s)"
    and clear: "\<And>s t. R s (clearTimer t s)"
    and settled: "\<And>s t v. R s (settle t (Fulfilled v) s)"
    and removed: "\<And>s n l. R s (removeListener n l s)"
    and resolved: "\<And>s t r. R s (resolve_auth t r s)"
  shows "R s (fst (run_listeners ls n a s))"
proof (induction ls arbitrary: s)
  case Nil
  show ?case by (simp add: refl)
next
  case (Cons l ls)
  have inv: "R s (fst (invoke l n a s))"
  proof (cases l)
    case (Subscriber i thrown)
    then show ?thesis by (simp add: called)
  next
    case (AckHandler m t)
    have "R s (settle t (Fulfilled (arg0 a)) (removeListener ''messageAcknowledged'' (AckHandler m t) (clearTimer t s)))"
      by (rule trans [OF clear trans [OF removed settled]])
    then show ?thesis using AckHandler by (simp add: refl split: sum.splits)
  next
    case (AuthHandler t)
    have a: "R s (removeListener ''message'' (AuthHandler t) (clearTimer t s))"
      by (rule trans [OF clear removed])
    have b: "R s (resolve_auth t r (removeListener ''message'' (AuthHandler t) (clearTimer t s)))" for r
      by (rule trans [OF a resolved])
    show ?thesis using AuthHandler a b by (simp add: refl Let_def split: sum.splits)
  qed
  show ?case
  proof (cases "snd (invoke l n a s)")
    case None
    then show ?thesis
      using trans [OF inv Cons.IH [of "fst (invoke l n a s)"]]
      by (simp add: seq_def)
  next
    case (Some e)
    then show ?thesis using inv by (simp add: seq_def)
  qed
qed

lemma emit_rel:
  assumes refl: "\<And>s. R s s"
    and trans: "\<And>s s' s''. R s s' \<Longrightarrow> R s' s'' \<Longrightarrow> R s s''"
    and called: "\<And>s i n. R s (observe (Called i n) s)"
    and clear: "\<And>s t. R s (clearTimer t s)"
    and settled: "\<And>s t v. R s (settle t (Fulfilled v) s)"
    and removed: "\<And>s n l. R s (removeListener n l s)"
    and resolved: "\<And>s t r. R s (resolve_auth t r s)"
    and emitting: "\<And>s. R s (observe (Emit n a) s)"
  shows "R s (fst (emit n a s))"
proof -
  have "R (observe (Emit n a) s) (fst (run_listeners ls n a (observe (Emit n a) s)))" for ls
    by (rule run_listeners_rel [of R, OF refl trans called clear settled removed resolved])
  then have "R s (fst (run_listeners ls n a (observe (Emit n a) s)))" for ls
    using trans [OF emitting] by blast
  then show ?thesis
    using emitting by (auto simp: emit_def Let_def)
qed

lemma client_emit_rel:
  assumes refl: "\<And>s. R s s"
    and trans: "\<And>s s' s''. R s s' \<Longrightarrow> R s' s'' \<Longrightarrow> R s s''"
    and called: "\<And>s i n. R s (observe (Called i n) s)"
    and clear: "\<And>s t. R s (clearTimer t s)"
    and settled: "\<And>s t v. R s (settle t (Fulfilled v) s)"
    and removed: "\<And>s n l. R s (removeListener n l s)"
    and resolved: "\<And>s t r. R s (resolve_auth t r s)"
    and emitting: "\<And>s. R s (observe (ClientEmit n a) s)"
  shows "R s (fst (client_emit n a s))"
proof -
  have "R (observe (ClientEmit n a) s) (fst (run_listeners ls n a (observe (ClientEmit n a) s)))" for ls
    by (rule run_listeners_rel [of R, OF refl trans called clear settled removed resolved])
  then have "R s (fst (run_listeners ls n a (observe (ClientEmit n a) s)))" for ls
    using trans [OF emitting] by blast
  then show ?thesis
    using emitting by (auto simp: client_emit_def Let_def)
qed

lemma phase_le_refl [simp]: "phase_le p p"
  by (simp add: phase_le_def)

lemma phase_le_trans: "phase_le p p' \<Longrightarrow> phase_le p' p'' \<Longrightarrow> phase_le p p''"
  by (auto simp: phase_le_def)

lemma phase_basic [simp]:
  "phase (observe ob s) = phase s" "phase (clearTimer t s) = phase s"
  "phase (removeListener n l s) = phase s" "phase (on n l s) = phase s"
  "phase (settle t p s) = phase s" "phase (set_sock i st s) = phase s"
  "phase (snd (setTimer k ms s)) = phase s"
  by (simp_all add: observe_def clearTimer_def removeListener_def on_def settle_def
      set_sock_def setTimer_def)

lemma phase_le_resolve_auth [simp]: "phase_le (phase s) (phase (resolve_auth t r s))"
  by (simp add: resolve_auth_def phase_le_def split: connect_phase.splits)

lemma phase_le_emit: "phase_le (phase s) (phase (fst (emit n a s)))"
  by (rule emit_rel [of "\<lambda>s s'. phase_le (phase s) (phase s')"])
     (auto intro: phase_le_trans)

lemma phase_le_client_emit: "phase_le (phase s) (phase (fst (client_emit n a s)))"
  by (rule client_emit_rel [of "\<lambda>s s'. phase_le (phase s) (phase s')"])
     (auto intro: phase_le_trans)

lemma phase_emit_idle [simp]:
  "(phase (fst (emit n a s)) = NoConnect) = (phase s = NoConnect)"
  "(phase (fst (client_emit n a s)) = NoConnect) = (phase s = NoConnect)"
  using phase_le_emit [of s n a] phase_le_client_emit [of s n a]
  by (auto simp: phase_le_def)

lemma phase_emit_fixed:
  "\<forall>t. phase s \<noteq> AwaitAuth t \<Longrightarrow> phase (fst (emit n a s)) = phase s"
  "\<forall>t. phase s \<noteq> AwaitAuth t \<Longrightarrow> phase (fst (client_emit n a s)) = phase s"
  using phase_le_emit [of s n a] phase_le_client_emit [of s n a]
  by (auto simp: phase_le_def)

lemma phase_connect_catch [simp]: "phase (connect_catch error s) = NoConnect"
  by (simp add: connect_catch_def Let_def split: option.splits)

lemma isConnecting_connect_catch [simp]: "\<not> isConnecting (connect_catch error s)"
  by (simp add: connect_catch_def Let_def observe_def split: option.splits)

lemma quiescent_connect_after_open [simp]: "quiescent (connect_after_open token s)"
  by (simp add: connect_after_open_def quiescent_def Let_def split: option.splits)

lemma quiescent_connect_finish [simp]: "quiescent (connect_finish s)"
  by (simp add: connect_finish_def quiescent_def Let_def split: option.splits)

lemma quiescent_drain [simp]: "quiescent (drain s)"
  by (auto simp: drain_def quiescent_def [of s] split: connect_phase.splits resumption.splits)
     (simp_all add: quiescent_def)

lemma drain_quiescent [simp]: "quiescent s \<Longrightarrow> drain s = s"
  by (simp add: quiescent_def drain_def split: connect_phase.splits)

lemma quiescent_step [simp]: "quiescent (step ev s)"
  by (simp add: step_def)

lemma quiescent_run: "quiescent s \<Longrightarrow> quiescent (run evs s)"
  by (induction evs arbitrary: s) simp_all

subsection \<open>Evaluation of scenarios\<close>

lemmas ws_eval =
  new_WebSocketManager_def observe_def setTimer_def clearTimer_def sock_at_def set_sock_def
  settle_def ws_send_def on_def removeListener_def listeners_of_def seq_def resolve_auth_def
  emit_def client_emit_def field_def startHeartbeatTimeout_def startHeartbeat_def
  stopHeartbeat_def handleHeartbeat_def scheduleReconnect_def handleWebSocketClose_def
  handleWebSocketError_def map_set_def map_delete_def messages_handleIncomingMessage_def
  handleIncomingMessage_def handleTypingIndicator_def handleReadReceipt_def
  handleOnlineStatus_def handleAcknowledgment_def dispatch_frame_def handleWebSocketMessage_def
  connect_catch_def connect_def fallback_info_def connect_after_info_def connect_after_open_def
  connect_finish_def drain_def disconnect_def sendMessage_def send_future_def uncaught_def
  on_open_def on_error_def on_close_def timer_callback_def on_timer_def step_def Let_def

lemma authenticating_eval:
  "authenticating =
     fresh_manager\<lparr>isConnecting := True, ws := Some 0,
       listeners := [(''error'', Subscriber 1 None), (''message'', AuthHandler 1)],
       timers := [(1, AuthTimeout, 10000)], nextTimer := 2, sockets := [Open],
       phase := AwaitAuth 1,
       observed := [Emit ''connecting'' [], Emit ''open'' [],
         Sent 0 (JObj [(''type'', JStr ''authentication''), (''token'', JStr ''token''),
           (''device_id'', JStr ''device''), (''client_id'', JStr ''client''),
           (''platform'', JStr ''android''), (''version'', JStr ''2023.12.04.00'')])]\<rparr>"
  by (simp add: authenticating_def fresh_manager_def ws_eval)

lemma opened_eval:
  "opened =
     fresh_manager\<lparr>isConnected := True, heartbeatInterval := Some 2, ws := Some 0,
       listeners := [(''error'', Subscriber 1 None)],
       timers := [(2, HeartbeatInterval, 30000)], nextTimer := 3, sockets := [Open],
       observed := [Emit ''connecting'' [], Emit ''open'' [],
         Sent 0 (JObj [(''type'', JStr ''authentication''), (''token'', JStr ''token''),
           (''device_id'', JStr ''device''), (''client_id'', JStr ''client''),
           (''platform'', JStr ''android''), (''version'', JStr ''2023.12.04.00'')]),
         Emit ''message'' [JObj [(''type'', JStr ''authentication_response''),
           (''success'', JBool True)]],
         Emit ''connect'' [],
         Emit ''connection'' [JObj [(''status'', JStr ''websocket_connected'')]],
         ConnectResolved]\<rparr>"
  by (simp add: opened_def authenticating_eval fresh_manager_def ws_eval)

subsection \<open>The channel never opens\<close>

text \<open>
  \<open>connect\<close> sets \<open>isConnected\<close> and starts the heartbeat only when \<open>authHandler\<close> has seen a
  \<open>message\<close> event of type \<open>authentication_response\<close> with a truthy \<open>success\<close>. The only
  emission of \<open>message\<close> is the one of \<open>_handleIncomingMessage\<close>, whose payload is rebuilt
  from six properties of the frame, \<open>success\<close> not among them; a frame of type
  \<open>authentication_response\<close> has no case in the dispatch. So no sequence of events opens
  the channel.
\<close>

lemma sent_payloads_append [simp]:
  "sent_payloads (xs @ ys) = sent_payloads xs @ sent_payloads ys"
  by (induction xs rule: sent_payloads.induct) simp_all

lemma connects_resolved_append [simp]:
  "connects_resolved (xs @ ys) = connects_resolved xs + connects_resolved ys"
  by (induction xs rule: connects_resolved.induct) simp_all

lemma unopened_observe [simp]:
  "unopened (observe (Emit n a) s) = unopened s"
  "unopened (observe (Called i n) s) = unopened s"
  "unopened (observe (ClientEmit n a) s) = unopened s"
  "unopened (observe (ConsoleLog m v) s) = unopened s"
  "unopened (observe (ConsoleWarn m) s) = unopened s"
  "unopened (observe (ConsoleError m e) s) = unopened s"
  "unopened (observe (Uncaught e) s) = unopened s"
  "unopened (observe (ConnectRejected e) s) = unopened s"
  "field v ''type'' \<noteq> JStr ''heartbeat'' \<Longrightarrow> unopened (observe (Sent j v) s) = unopened s"
  by (simp_all add: unopened_def observe_def heartbeats_sent_def timers_of_kind_def)

lemma unopened_updates [simp]:
  "unopened (s\<lparr>isConnecting := b\<rparr>) = unopened s"
  "unopened (s\<lparr>ws := w\<rparr>) = unopened s"
  "unopened (s\<lparr>reconnectAttempts := k\<rparr>) = unopened s"
  "unopened (s\<lparr>clientListeners := cl\<rparr>) = unopened s"
  "unopened (s\<lparr>sockets := so\<rparr>) = unopened s"
  "unopened (removeListener n l s) = unopened s"
  "unopened (on n l s) = unopened s"
  "unopened (set_sock j st s) = unopened s"
  "unopened (settle t p s) = unopened s"
  by (simp_all add: unopened_def heartbeats_sent_def timers_of_kind_def removeListener_def on_def
      set_sock_def settle_def)

lemma unopened_phase [simp]:
  "p \<noteq> Resuming AfterAuth \<Longrightarrow> unopened s \<Longrightarrow> unopened (s\<lparr>phase := p\<rparr>)"
  by (simp add: unopened_def heartbeats_sent_def timers_of_kind_def)

lemma unopened_clearTimer [simp]: "unopened s \<Longrightarrow> unopened (clearTimer t s)"
  by (simp add: unopened_def heartbeats_sent_def timers_of_kind_def clearTimer_def
      filter_empty_conv)

lemma unopened_setTimer [simp]:
  "kind = OpenTimeout \<or> kind = AuthTimeout \<or> kind = ReconnectTimer \<Longrightarrow>
   unopened (snd (setTimer kind ms s)) = unopened s"
  by (auto simp: unopened_def heartbeats_sent_def timers_of_kind_def setTimer_def)

lemma unopened_resolve_auth [simp]:
  "unopened s \<Longrightarrow> unopened (resolve_auth t (AfterFailure error) s)"
  by (simp add: resolve_auth_def split: connect_phase.splits)






lemma no_success_simps [simp]:
  "no_success []" "no_success [JError error]" "no_success (JNum code # rest)"
  "no_success (JStr text # rest)"
  "map_of kvs ''success'' = None \<Longrightarrow> no_success (JObj kvs # rest)"
  by (simp_all add: no_success_def)

lemma unopened_scheduleReconnect [simp]: "unopened (scheduleReconnect s) = unopened s"
  by (simp add: scheduleReconnect_def Let_def)

lemma unopened_isConnected [simp]: "unopened s \<Longrightarrow> unopened (s\<lparr>isConnected := False\<rparr>)"
  by (simp add: unopened_def heartbeats_sent_def timers_of_kind_def)
























subsection \<open>Delivery tracking\<close>






subsection \<open>Reconnection\<close>

lemma emit_names_append [simp]: "emit_names (xs @ ys) = emit_names xs @ emit_names ys"
  by (induction xs rule: emit_names.induct) simp_all

lemma emitted_basic [simp]:
  "emitted (observe (Emit n a) s) = emitted s @ [n]"
  "emitted (observe (Called i n) s) = emitted s"
  "emitted (observe (ClientEmit n a) s) = emitted s"
  "emitted (observe (ConsoleLog m v) s) = emitted s"
  "emitted (observe (ConsoleWarn m) s) = emitted s"
  "emitted (observe (ConsoleError m e) s) = emitted s"
  "emitted (observe (Uncaught e) s) = emitted s"
  "emitted (observe (Sent i v) s) = emitted s"
  "emitted (observe ConnectResolved s) = emitted s"
  "emitted (observe (ConnectRejected e) s) = emitted s"
  "emitted (clearTimer t s) = emitted s" "emitted (settle t p s) = emitted s"
  "emitted (removeListener n l s) = emitted s" "emitted (on n l s) = emitted s"
  "emitted (resolve_auth t r s) = emitted s" "emitted (set_sock i st s) = emitted s"
  "emitted (snd (setTimer k ms s)) = emitted s"
  by (simp_all add: emitted_def observe_def clearTimer_def settle_def removeListener_def on_def
      resolve_auth_def set_sock_def setTimer_def split: connect_phase.splits)

lemma emitted_run_listeners [simp]: "emitted (fst (run_listeners ls n a s)) = emitted s"
  by (rule run_listeners_rel [of "\<lambda>s s'. emitted s' = emitted s"]) simp_all

lemma emitted_emit [simp]: "emitted (fst (emit n a s)) = emitted s @ [n]"
  by (simp add: emit_def Let_def)

lemma emitted_client_emit [simp]: "emitted (fst (client_emit n a s)) = emitted s"
  by (simp add: client_emit_def Let_def)

lemma timers_basic [simp]:
  "timers (observe ob s) = timers s" "timers (settle t p s) = timers s"
  "timers (removeListener n l s) = timers s" "timers (on n l s) = timers s"
  "timers (resolve_auth t r s) = timers s" "timers (set_sock i st s) = timers s"
  by (simp_all add: observe_def settle_def removeListener_def on_def resolve_auth_def set_sock_def
      split: connect_phase.splits)

lemma timers_emit_subset: "set (timers (fst (emit n a s))) \<subseteq> set (timers s)"
  by (rule emit_rel [of "\<lambda>s s'. set (timers s') \<subseteq> set (timers s)"])
     (auto simp: clearTimer_def)

lemma scheduleReconnect_eq:
  "scheduleReconnect x =
     x\<lparr>reconnectAttempts := reconnectAttempts x + 1,
       timers := timers x @ [(nextTimer x, ReconnectTimer, reconnectDelay x * 2 ^ reconnectAttempts x)],
       nextTimer := nextTimer x + 1\<rparr>"
  by (simp add: scheduleReconnect_def setTimer_def Let_def)

lemma emitted_scheduleReconnect [simp]: "emitted (scheduleReconnect x) = emitted x"
  by (simp add: scheduleReconnect_eq emitted_def)

lemma handleWebSocketClose_ok:
  assumes "snd (handleWebSocketClose code reason s) = None"
  shows "fst (handleWebSocketClose code reason s) =
      (if autoReconnect s \<and> reconnectAttempts s < maxReconnectAttempts s
       then scheduleReconnect (fst (emit ''close'' [JNum code, JStr reason] (s\<lparr>isConnected := False\<rparr>)))
       else fst (emit ''close'' [JNum code, JStr reason] (s\<lparr>isConnected := False\<rparr>)))"
  using assms unfolding handleWebSocketClose_def seq_def by (auto split: option.splits)

lemma handleWebSocketError_ok:
  assumes "snd (handleWebSocketError error s) = None"
  shows "fst (handleWebSocketError error s) =
      (if autoReconnect s \<and> reconnectAttempts s < maxReconnectAttempts s
       then scheduleReconnect (fst (emit ''error'' [JError error] s))
       else fst (emit ''error'' [JError error] s))"
  using assms unfolding handleWebSocketError_def seq_def by (auto split: option.splits)

text \<open>
  Claim C6, as amended. The channel fails when its transport closes or raises an error;
  the handlers of the two events apply the same policy, once the subscribers of \<open>close\<close>,
  respectively of \<open>error\<close>, have returned normally. With auto-reconnect enabled and the
  attempt counter below the maximum, the counter is incremented to \<open>n\<close>, stays within the
  maximum, and a reconnect timer is armed with the delay of the base reconnect delay times
  \<open>2 ^ (n - 1)\<close>; otherwise the counter is unchanged and no timer is armed. In both cases
  the only event emitted is the one of the failure, \<open>close\<close> or \<open>error\<close>: nothing more is
  emitted when the maximum is reached. The delay of a reconnect scheduled right after
  another is not smaller.
\<close>

theorem reconnect_backoff_schedule:
  "(snd (handleWebSocketClose code reason s) = None \<longrightarrow>
      (autoReconnect s \<and> reconnectAttempts s < maxReconnectAttempts s \<longrightarrow>
         reconnectAttempts (fst (handleWebSocketClose code reason s)) = reconnectAttempts s + 1 \<and>
         reconnectAttempts (fst (handleWebSocketClose code reason s)) \<le> maxReconnectAttempts s \<and>
         (\<exists>earlier. timers (fst (handleWebSocketClose code reason s)) =
              earlier @ [(nextTimer s, ReconnectTimer,
                 reconnectDelay s * 2 ^ (reconnectAttempts (fst (handleWebSocketClose code reason s)) - 1))] \<and>
            set earlier \<subseteq> set (timers s))) \<and>
      (\<not> (autoReconnect s \<and> reconnectAttempts s < maxReconnectAttempts s) \<longrightarrow>
         reconnectAttempts (fst (handleWebSocketClose code reason s)) = reconnectAttempts s \<and>
         set (timers (fst (handleWebSocketClose code reason s))) \<subseteq> set (timers s)) \<and>
      emitted (fst (handleWebSocketClose code reason s)) = emitted s @ [''close''] \<and>
      \<not> isConnected (fst (handleWebSocketClose code reason s))) \<and>
   (snd (handleWebSocketError error s) = None \<longrightarrow>
      (autoReconnect s \<and> reconnectAttempts s < maxReconnectAttempts s \<longrightarrow>
         reconnectAttempts (fst (handleWebSocketError error s)) = reconnectAttempts s + 1 \<and>
         reconnectAttempts (fst (handleWebSocketError error s)) \<le> maxReconnectAttempts s \<and>
         (\<exists>earlier. timers (fst (handleWebSocketError error s)) =
              earlier @ [(nextTimer s, ReconnectTimer,
                 reconnectDelay s * 2 ^ (reconnectAttempts (fst (handleWebSocketError error s)) - 1))] \<and>
            set earlier \<subseteq> set (timers s))) \<and>
      (\<not> (autoReconnect s \<and> reconnectAttempts s < maxReconnectAttempts s) \<longrightarrow>
         reconnectAttempts (fst (handleWebSocketError error s)) = reconnectAttempts s \<and>
         set (timers (fst (handleWebSocketError error s))) \<subseteq> set (timers s)) \<and>
      emitted (fst (handleWebSocketError error s)) = emitted s @ [''error''] \<and>
      isConnected (fst (handleWebSocketError error s)) = isConnected s) \<and>
   delay_of_last_timer (scheduleReconnect s) \<le>
     delay_of_last_timer (scheduleReconnect (scheduleReconnect s))"
proof -
  let ?c = "emit ''close'' [JNum code, JStr reason] (s\<lparr>isConnected := False\<rparr>)"
  let ?e = "emit ''error'' [JError error] s"
  have subc: "set (timers (fst ?c)) \<subseteq> set (timers s)"
    using timers_emit_subset [of "''close''" "[JNum code, JStr reason]" "s\<lparr>isConnected := False\<rparr>"]
    by simp
  have sube: "set (timers (fst ?e)) \<subseteq> set (timers s)"
    by (rule timers_emit_subset)
  have m: "delay_of_last_timer (scheduleReconnect s) \<le>
           delay_of_last_timer (scheduleReconnect (scheduleReconnect s))"
    by (simp add: delay_of_last_timer_def scheduleReconnect_eq)
  have c: "snd (handleWebSocketClose code reason s) = None \<longrightarrow>
      (autoReconnect s \<and> reconnectAttempts s < maxReconnectAttempts s \<longrightarrow>
         reconnectAttempts (fst (handleWebSocketClose code reason s)) = reconnectAttempts s + 1 \<and>
         reconnectAttempts (fst (handleWebSocketClose code reason s)) \<le> maxReconnectAttempts s \<and>
         (\<exists>earlier. timers (fst (handleWebSocketClose code reason s)) =
              earlier @ [(nextTimer s, ReconnectTimer,
                 reconnectDelay s * 2 ^ (reconnectAttempts (fst (handleWebSocketClose code reason s)) - 1))] \<and>
            set earlier \<subseteq> set (timers s))) \<and>
      (\<not> (autoReconnect s \<and> reconnectAttempts s < maxReconnectAttempts s) \<longrightarrow>
         reconnectAttempts (fst (handleWebSocketClose code reason s)) = reconnectAttempts s \<and>
         set (timers (fst (handleWebSocketClose code reason s))) \<subseteq> set (timers s)) \<and>
      emitted (fst (handleWebSocketClose code reason s)) = emitted s @ [''close''] \<and>
      \<not> isConnected (fst (handleWebSocketClose code reason s))"
  proof
    assume ok: "snd (handleWebSocketClose code reason s) = None"
    note h = handleWebSocketClose_ok [OF ok]
    have c1: "autoReconnect s \<and> reconnectAttempts s < maxReconnectAttempts s \<longrightarrow>
         reconnectAttempts (fst (handleWebSocketClose code reason s)) = reconnectAttempts s + 1 \<and>
         reconnectAttempts (fst (handleWebSocketClose code reason s)) \<le> maxReconnectAttempts s \<and>
         (\<exists>earlier. timers (fst (handleWebSocketClose code reason s)) =
              earlier @ [(nextTimer s, ReconnectTimer,
                 reconnectDelay s * 2 ^ (reconnectAttempts (fst (handleWebSocketClose code reason s)) - 1))] \<and>
            set earlier \<subseteq> set (timers s))"
      using subc by (simp add: h scheduleReconnect_eq)
    have c2: "\<not> (autoReconnect s \<and> reconnectAttempts s < maxReconnectAttempts s) \<longrightarrow>
         reconnectAttempts (fst (handleWebSocketClose code reason s)) = reconnectAttempts s \<and>
         set (timers (fst (handleWebSocketClose code reason s))) \<subseteq> set (timers s)"
      using subc by (auto simp: h)
    have c3: "emitted (fst (handleWebSocketClose code reason s)) = emitted s @ [''close'']"
      by (simp add: h) (simp add: emitted_def)
    have c4: "\<not> isConnected (fst (handleWebSocketClose code reason s))"
      by (simp add: h scheduleReconnect_eq)
    from c1 c2 c3 c4 show "(autoReconnect s \<and> reconnectAttempts s < maxReconnectAttempts s \<longrightarrow>
         reconnectAttempts (fst (handleWebSocketClose code reason s)) = reconnectAttempts s + 1 \<and>
         reconnectAttempts (fst (handleWebSocketClose code reason s)) \<le> maxReconnectAttempts s \<and>
         (\<exists>earlier. timers (fst (handleWebSocketClose code reason s)) =
              earlier @ [(nextTimer s, ReconnectTimer,
                 reconnectDelay s * 2 ^ (reconnectAttempts (fst (handleWebSocketClose code reason s)) - 1))] \<and>
            set earlier \<subseteq> set (timers s))) \<and>
      (\<not> (autoReconnect s \<and> reconnectAttempts s < maxReconnectAttempts s) \<longrightarrow>
         reconnectAttempts (fst (handleWebSocketClose code reason s)) = reconnectAttempts s \<and>
         set (timers (fst (handleWebSocketClose code reason s))) \<subseteq> set (timers s)) \<and>
      emitted (fst (handleWebSocketClose code reason s)) = emitted s @ [''close''] \<and>
      \<not> isConnected (fst (handleWebSocketClose code reason s))"
      by blast
  qed
  have e: "snd (handleWebSocketError error s) = None \<longrightarrow>
      (autoReconnect s \<and> reconnectAttempts s < maxReconnectAttempts s \<longrightarrow>
         reconnectAttempts (fst (handleWebSocketError error s)) = reconnectAttempts s + 1 \<and>
         reconnectAttempts (fst (handleWebSocketError error s)) \<le> maxReconnectAttempts s \<and>
         (\<exists>earlier. timers (fst (handleWebSocketError error s)) =
              earlier @ [(nextTimer s, ReconnectTimer,
                 reconnectDelay s * 2 ^ (reconnectAttempts (fst (handleWebSocketError error s)) - 1))] \<and>
            set earlier \<subseteq> set (timers s))) \<and>
      (\<not> (autoReconnect s \<and> reconnectAttempts s < maxReconnectAttempts s) \<longrightarrow>
         reconnectAttempts (fst (handleWebSocketError error s)) = reconnectAttempts s \<and>
         set (timers (fst (handleWebSocketError error s))) \<subseteq> set (timers s)) \<and>
      emitted (fst (handleWebSocketError error s)) = emitted s @ [''error''] \<and>
      isConnected (fst (handleWebSocketError error s)) = isConnected s"
  proof
    assume ok: "snd (handleWebSocketError error s) = None"
    note h = handleWebSocketError_ok [OF ok]
    have e1: "autoReconnect s \<and> reconnectAttempts s < maxReconnectAttempts s \<longrightarrow>
         reconnectAttempts (fst (handleWebSocketError error s)) = reconnectAttempts s + 1 \<and>
         reconnectAttempts (fst (handleWebSocketError error s)) \<le> maxReconnectAttempts s \<and>
         (\<exists>earlier. timers (fst (handleWebSocketError error s)) =
              earlier @ [(nextTimer s, ReconnectTimer,
                 reconnectDelay s * 2 ^ (reconnectAttempts (fst (handleWebSocketError error s)) - 1))] \<and>
            set earlier \<subseteq> set (timers s))"
      using sube by (simp add: h scheduleReconnect_eq)
    have e2: "\<not> (autoReconnect s \<and> reconnectAttempts s < maxReconnectAttempts s) \<longrightarrow>
         reconnectAttempts (fst (handleWebSocketError error s)) = reconnectAttempts s \<and>
         set (timers (fst (handleWebSocketError error s))) \<subseteq> set (timers s)"
      using sube by (auto simp: h)
    have e3: "emitted (fst (handleWebSocketError error s)) = emitted s @ [''error'']"
      by (simp add: h)
    have e4: "isConnected (fst (handleWebSocketError error s)) = isConnected s"
      by (simp add: h scheduleReconnect_eq)
    from e1 e2 e3 e4 show "(autoReconnect s \<and> reconnectAttempts s < maxReconnectAttempts s \<longrightarrow>
         reconnectAttempts (fst (handleWebSocketError error s)) = reconnectAttempts s + 1 \<and>
         reconnectAttempts (fst (handleWebSocketError error s)) \<le> maxReconnectAttempts s \<and>
         (\<exists>earlier. timers (fst (handleWebSocketError error s)) =
              earlier @ [(nextTimer s, ReconnectTimer,
                 reconnectDelay s * 2 ^ (reconnectAttempts (fst (handleWebSocketError error s)) - 1))] \<and>
            set earlier \<subseteq> set (timers s))) \<and>
      (\<not> (autoReconnect s \<and> reconnectAttempts s < maxReconnectAttempts s) \<longrightarrow>
         reconnectAttempts (fst (handleWebSocketError error s)) = reconnectAttempts s \<and>
         set (timers (fst (handleWebSocketError error s))) \<subseteq> set (timers s)) \<and>
      emitted (fst (handleWebSocketError error s)) = emitted s @ [''error''] \<and>
      isConnected (fst (handleWebSocketError error s)) = isConnected s"
      by blast
  qed
  from c e m show ?thesis by blast
qed

text \<open>
  Three connection attempts are refused; each refusal raises the transport's \<open>error\<close> and
  \<open>close\<close> events, and the counter reaches the maximum of five.
\<close>

lemma exhausted_eval:
  "exhausted =
     fresh_manager\<lparr>reconnectAttempts := 5, ws := Some 2,
       listeners := [(''error'', Subscriber 1 None)],
       timers := [(2, ReconnectTimer, 2000), (5, ReconnectTimer, 8000), (7, ReconnectTimer, 16000)],
       nextTimer := 8, sockets := [Closed, Closed, Closed],
       observed :=
         [Emit ''connecting'' [],
          Emit ''error'' [JError refused], Called 1 ''error'',
          Emit ''error'' [JError refused], Called 1 ''error'',
          ConnectRejected (NetErr ''WebSocket connection failed: connect ECONNREFUSED''),
          Emit ''close'' [JNum 1006, JStr []],
          Emit ''connecting'' [],
          Emit ''error'' [JError refused], Called 1 ''error'',
          Emit ''error'' [JError refused], Called 1 ''error'',
          ConnectRejected (NetErr ''WebSocket connection failed: connect ECONNREFUSED''),
          Emit ''close'' [JNum 1006, JStr []],
          Emit ''connecting'' [],
          Emit ''error'' [JError refused], Called 1 ''error'',
          Emit ''error'' [JError refused], Called 1 ''error'',
          ConnectRejected (NetErr ''WebSocket connection failed: connect ECONNREFUSED'')]\<rparr>"
  by (simp add: exhausted_def fresh_manager_def refused_def ws_eval)

text \<open>
  A first connection attempt is refused, with one subscriber of \<open>error\<close> and one of
  \<open>close\<close>: the transport's \<open>error\<close> event schedules the first reconnect.
\<close>

lemma refused_once_eval:
  "refused_once =
     fresh_manager\<lparr>reconnectAttempts := 1, ws := Some 0,
       listeners := [(''error'', Subscriber 1 None), (''close'', Subscriber 2 None)],
       timers := [(1, ReconnectTimer, 1000)],
       nextTimer := 2, sockets := [Closed],
       observed :=
         [Emit ''connecting'' [],
          Emit ''error'' [JError refused], Called 1 ''error'',
          Emit ''error'' [JError refused], Called 1 ''error'',
          ConnectRejected (NetErr ''WebSocket connection failed: connect ECONNREFUSED'')]\<rparr>"
  by (simp add: refused_once_def fresh_manager_def refused_def ws_eval)

theorem reconnect_backoff_schedule_witness:
  "(reconnectAttempts (fst (handleWebSocketClose 1006 [] refused_once)) = 2 \<and>
    (\<exists>earlier. timers (fst (handleWebSocketClose 1006 [] refused_once)) =
        earlier @ [(2, ReconnectTimer, 2000)] \<and> set earlier \<subseteq> set (timers refused_once)) \<and>
    emitted (fst (handleWebSocketClose 1006 [] refused_once)) = emitted refused_once @ [''close'']) \<and>
   (reconnectAttempts (fst (handleWebSocketError refused refused_once)) = 2 \<and>
    (\<exists>earlier. timers (fst (handleWebSocketError refused refused_once)) =
        earlier @ [(2, ReconnectTimer, 2000)] \<and> set earlier \<subseteq> set (timers refused_once)) \<and>
    emitted (fst (handleWebSocketError refused refused_once)) = emitted refused_once @ [''error'']) \<and>
   (reconnectAttempts (fst (handleWebSocketClose 1006 [] exhausted)) = 5 \<and>
    set (timers (fst (handleWebSocketClose 1006 [] exhausted))) \<subseteq> set (timers exhausted)) \<and>
   (reconnectAttempts (fst (handleWebSocketError refused exhausted)) = 5 \<and>
    set (timers (fst (handleWebSocketError refused exhausted))) \<subseteq> set (timers exhausted))"
proof -
  have h: "snd (handleWebSocketClose 1006 [] refused_once) = None"
    "snd (handleWebSocketError refused refused_once) = None"
    "snd (handleWebSocketClose 1006 [] exhausted) = None"
    "snd (handleWebSocketError refused exhausted) = None"
    by (simp_all add: refused_once_eval exhausted_eval fresh_manager_def ws_eval)
  have c: "autoReconnect refused_once \<and> reconnectAttempts refused_once < maxReconnectAttempts refused_once"
    "reconnectAttempts refused_once = 1" "nextTimer refused_once = 2"
    "reconnectDelay refused_once = 1000"
    by (simp_all add: refused_once_eval fresh_manager_def new_WebSocketManager_def)
  have x: "\<not> (autoReconnect exhausted \<and> reconnectAttempts exhausted < maxReconnectAttempts exhausted)"
    "reconnectAttempts exhausted = 5"
    by (simp_all add: exhausted_eval fresh_manager_def new_WebSocketManager_def)
  have a: "reconnectAttempts (fst (handleWebSocketClose 1006 [] refused_once)) = 2 \<and>
    (\<exists>earlier. timers (fst (handleWebSocketClose 1006 [] refused_once)) =
        earlier @ [(2, ReconnectTimer, 2000)] \<and> set earlier \<subseteq> set (timers refused_once)) \<and>
    emitted (fst (handleWebSocketClose 1006 [] refused_once)) = emitted refused_once @ [''close'']"
    using reconnect_backoff_schedule [of 1006 "[]" refused_once refused] h(1) c by auto
  have b: "reconnectAttempts (fst (handleWebSocketError refused refused_once)) = 2 \<and>
    (\<exists>earlier. timers (fst (handleWebSocketError refused refused_once)) =
        earlier @ [(2, ReconnectTimer, 2000)] \<and> set earlier \<subseteq> set (timers refused_once)) \<and>
    emitted (fst (handleWebSocketError refused refused_once)) = emitted refused_once @ [''error'']"
    using reconnect_backoff_schedule [of 1006 "[]" refused_once refused] h(2) c by auto
  have d: "reconnectAttempts (fst (handleWebSocketClose 1006 [] exhausted)) = 5 \<and>
    set (timers (fst (handleWebSocketClose 1006 [] exhausted))) \<subseteq> set (timers exhausted)"
    using reconnect_backoff_schedule [of 1006 "[]" exhausted refused] h(3) x by auto
  have f: "reconnectAttempts (fst (handleWebSocketError refused exhausted)) = 5 \<and>
    set (timers (fst (handleWebSocketError refused exhausted))) \<subseteq> set (timers exhausted)"
    using reconnect_backoff_schedule [of 1006 "[]" exhausted refused] h(4) x by auto
  from a b d f show ?thesis by blast
qed

text \<open>
  As stated the claim fails. With the counter at the maximum the close of the transport
  arms no timer and emits the \<open>close\<close> event only: there is no terminal event. A failed
  authentication of the channel, here by its timeout, rejects the call of \<open>connect\<close> and
  schedules no reconnect, with auto-reconnect enabled and no attempt made so far. And when
  the \<open>error\<close> event has no subscriber, its emission throws and the handler of the
  transport's error never reaches the scheduling.
\<close>

lemma auth_timed_out_eval:
  "step (TimerFires 1 10000) authenticating =
     authenticating\<lparr>isConnecting := False, phase := NoConnect, timers := [],
       observed := observed authenticating @
         [Emit ''error'' [JError (NetErr ''Authentication timeout'')], Called 1 ''error'',
          ConnectRejected (NetErr ''WebSocket connection failed: Authentication timeout'')]\<rparr>"
  by (simp add: authenticating_eval fresh_manager_def ws_eval)

lemma unheard_error_eval:
  "unheard_error =
     fresh_manager\<lparr>isConnecting := True, ws := Some 0, phase := AwaitOpen 0 0 (JStr ''token''),
       timers := [(0, OpenTimeout, 30000)], nextTimer := 1, sockets := [Closed],
       observed := [Emit ''connecting'' [], Emit ''error'' [JError refused], Uncaught refused]\<rparr>"
  by (simp add: unheard_error_def fresh_manager_def refused_def ws_eval)

theorem no_terminal_event_counterexample:
  "(autoReconnect exhausted \<and>
    reconnectAttempts exhausted = maxReconnectAttempts exhausted \<and>
    timers (step (SocketClose 2 1006 []) exhausted) = timers exhausted \<and>
    observed (step (SocketClose 2 1006 []) exhausted) =
      observed exhausted @ [Emit ''close'' [JNum 1006, JStr []]]) \<and>
   (autoReconnect authenticating \<and>
    reconnectAttempts authenticating < maxReconnectAttempts authenticating \<and>
    ConnectRejected (NetErr ''WebSocket connection failed: Authentication timeout'') \<in>
      set (observed (step (TimerFires 1 10000) authenticating)) \<and>
    reconnectAttempts (step (TimerFires 1 10000) authenticating) = reconnectAttempts authenticating \<and>
    timers (step (TimerFires 1 10000) authenticating) = []) \<and>
   (autoReconnect unheard_error \<and> reconnectAttempts unheard_error = 0 \<and>
    Uncaught refused \<in> set (observed unheard_error) \<and>
    timers unheard_error = [(0, OpenTimeout, 30000)])"
proof -
  have a: "autoReconnect exhausted \<and>
    reconnectAttempts exhausted = maxReconnectAttempts exhausted \<and>
    timers (step (SocketClose 2 1006 []) exhausted) = timers exhausted \<and>
    observed (step (SocketClose 2 1006 []) exhausted) =
      observed exhausted @ [Emit ''close'' [JNum 1006, JStr []]]"
    by (simp add: exhausted_eval fresh_manager_def ws_eval)
  have b: "autoReconnect authenticating \<and>
    reconnectAttempts authenticating < maxReconnectAttempts authenticating \<and>
    ConnectRejected (NetErr ''WebSocket connection failed: Authentication timeout'') \<in>
      set (observed (step (TimerFires 1 10000) authenticating)) \<and>
    reconnectAttempts (step (TimerFires 1 10000) authenticating) = reconnectAttempts authenticating \<and>
    timers (step (TimerFires 1 10000) authenticating) = []"
    unfolding auth_timed_out_eval
    by (simp add: authenticating_eval fresh_manager_def new_WebSocketManager_def)
  have c: "autoReconnect unheard_error \<and> reconnectAttempts unheard_error = 0 \<and>
    Uncaught refused \<in> set (observed unheard_error) \<and>
    timers unheard_error = [(0, OpenTimeout, 30000)]"
    by (simp add: unheard_error_eval fresh_manager_def new_WebSocketManager_def)
  from a b c show ?thesis by blast
qed

subsection \<open>The guard of connect\<close>

text \<open>
  Claim C9, as amended: a call of \<open>connect\<close> while a connect is pending or the channel is
  open is a no-op: the manager is left exactly as it was, and no transport is created.
  This holds for the call itself, for the call as an event of the loop, and for the call
  made by a reconnect timer.
\<close>

theorem connect_guard_noop:
  assumes "isConnected s \<or> isConnecting s" and "quiescent s"
  shows "connect s = s \<and> step Connect s = s \<and> sockets (step Connect s) = sockets s \<and>
         timer_callback t ReconnectTimer now s = s"
  using assms by (auto simp: connect_def step_def timer_callback_def)

theorem connect_guard_noop_witness:
  "connect authenticating = authenticating \<and> step Connect authenticating = authenticating \<and>
   sockets (step Connect authenticating) = sockets authenticating \<and>
   timer_callback 0 ReconnectTimer 0 authenticating = authenticating"
proof -
  have h: "isConnected authenticating \<or> isConnecting authenticating" "quiescent authenticating"
    by (simp_all add: authenticating_eval quiescent_def)
  show ?thesis by (rule connect_guard_noop [OF h])
qed

text \<open>
  The bound on live transports does not follow. When the channel authentication times
  out, the failed connect leaves its open transport in place; the next connect passes the
  guard and creates a second transport beside it.
\<close>

lemma reconnected_after_auth_timeout_eval:
  "sockets reconnected_after_auth_timeout = [Open, Connecting] \<and>
   ws reconnected_after_auth_timeout = Some 1 \<and>
   phase reconnected_after_auth_timeout = AwaitOpen 2 1 (JStr ''token'')"
  by (simp add: reconnected_after_auth_timeout_def authenticating_eval fresh_manager_def ws_eval)

theorem two_live_transports_counterexample:
  "live_transports reconnected_after_auth_timeout = 2"
  by (simp add: live_transports_def reconnected_after_auth_timeout_eval)

subsection \<open>Frame dispatch\<close>

lemma run_listeners_quiet:
  "run_listeners (map (\<lambda>j. Subscriber j None) before @ rest) name args s =
     run_listeners rest name args (s\<lparr>observed := observed s @ map (\<lambda>j. Called j name) before\<rparr>)"
  by (induction before arbitrary: s) (simp_all add: observe_def)

lemma emit_until_throw:
  assumes "listeners_of name (listeners s) =
             map (\<lambda>j. Subscriber j None) before @ Subscriber i (Some error) # after"
  shows "emit name args s =
     (s\<lparr>observed := observed s @ Emit name args # map (\<lambda>j. Called j name) before @ [Called i name]\<rparr>,
      Some error)"
  using assms by (simp add: emit_def Let_def run_listeners_quiet observe_def)

text \<open>
  Claim C8, as amended. An undecodable frame is logged and dropped, and so is a frame
  with an unknown discriminant: the manager changes in its log only. An exception thrown
  by a subscriber during the dispatch of an event leaves \<open>emit\<close> after the subscribers
  registered before it have run, the later subscribers of the event are not called, and
  the frame handler's single \<open>try\<close>/\<open>catch\<close> logs the exception: nothing unwinds out of
  \<open>_handleWebSocketMessage\<close>, whose result is always a manager.
\<close>

theorem frame_errors_are_logged:
  "handleWebSocketMessage Unparsable s =
     observe (ConsoleError ''Failed to parse WebSocket message:''
                (SyntaxErr ''Unexpected token in JSON'')) s \<and>
   (getprop message ''type'' = Inr ty \<and> ty \<notin> set discriminants \<longrightarrow>
      handleWebSocketMessage (Parsed message) s =
        observe (ConsoleLog ''Unknown WebSocket message type:'' ty) s) \<and>
   (listeners_of name (listeners s) =
      map (\<lambda>j. Subscriber j None) before @ Subscriber i (Some error) # after \<longrightarrow>
      emit name args s =
        (s\<lparr>observed := observed s @ Emit name args # map (\<lambda>j. Called j name) before @
             [Called i name]\<rparr>, Some error)) \<and>
   (getprop message ''type'' = Inr (JStr ''typing'') \<and>
    listeners_of ''typing'' (listeners s) =
      map (\<lambda>j. Subscriber j None) before @ Subscriber i (Some error) # after \<longrightarrow>
      handleWebSocketMessage (Parsed message) s =
        s\<lparr>observed := observed s @
            Emit ''typing'' [JObj [(''thread_id'', field message ''thread_id''),
               (''user_id'', field message ''user_id''), (''typing'', field message ''typing''),
               (''timestamp'', field message ''timestamp'')]] #
            map (\<lambda>j. Called j ''typing'') before @
            [Called i ''typing'',
             ConsoleError ''Failed to parse WebSocket message:'' error]\<rparr>)"
proof -
  have a: "handleWebSocketMessage Unparsable s =
     observe (ConsoleError ''Failed to parse WebSocket message:''
                (SyntaxErr ''Unexpected token in JSON'')) s"
    by (simp add: handleWebSocketMessage_def)
  have b: "getprop message ''type'' = Inr ty \<and> ty \<notin> set discriminants \<longrightarrow>
      handleWebSocketMessage (Parsed message) s =
        observe (ConsoleLog ''Unknown WebSocket message type:'' ty) s"
    by (auto simp: handleWebSocketMessage_def dispatch_frame_def discriminants_def)
  have c: "listeners_of name (listeners s) =
      map (\<lambda>j. Subscriber j None) before @ Subscriber i (Some error) # after \<longrightarrow>
      emit name args s =
        (s\<lparr>observed := observed s @ Emit name args # map (\<lambda>j. Called j name) before @
             [Called i name]\<rparr>, Some error)"
    by (simp add: emit_until_throw)
  have d: "getprop message ''type'' = Inr (JStr ''typing'') \<and>
    listeners_of ''typing'' (listeners s) =
      map (\<lambda>j. Subscriber j None) before @ Subscriber i (Some error) # after \<longrightarrow>
      handleWebSocketMessage (Parsed message) s =
        s\<lparr>observed := observed s @
            Emit ''typing'' [JObj [(''thread_id'', field message ''thread_id''),
               (''user_id'', field message ''user_id''), (''typing'', field message ''typing''),
               (''timestamp'', field message ''timestamp'')]] #
            map (\<lambda>j. Called j ''typing'') before @
            [Called i ''typing'',
             ConsoleError ''Failed to parse WebSocket message:'' error]\<rparr>"
    by (auto simp: handleWebSocketMessage_def dispatch_frame_def handleTypingIndicator_def
        emit_until_throw observe_def)
  from a b c d show ?thesis by blast
qed

lemma two_subscribers_eval:
  "two_subscribers =
     opened\<lparr>listeners := [(''error'', Subscriber 1 None),
        (''typing'', Subscriber 7 (Some (Thrown ''boom''))), (''typing'', Subscriber 8 None)]\<rparr>"
  by (simp add: two_subscribers_def opened_eval fresh_manager_def ws_eval)

theorem frame_errors_are_logged_witness:
  "handleWebSocketMessage Unparsable two_subscribers =
     observe (ConsoleError ''Failed to parse WebSocket message:''
                (SyntaxErr ''Unexpected token in JSON'')) two_subscribers \<and>
   handleWebSocketMessage (Parsed (JObj [(''type'', JStr ''poke'')])) two_subscribers =
     observe (ConsoleLog ''Unknown WebSocket message type:'' (JStr ''poke'')) two_subscribers \<and>
   emit ''typing'' [JNull] two_subscribers =
     (two_subscribers\<lparr>observed := observed two_subscribers @
        [Emit ''typing'' [JNull], Called 7 ''typing'']\<rparr>, Some (Thrown ''boom'')) \<and>
   handleWebSocketMessage (Parsed (JObj [(''type'', JStr ''typing'')])) two_subscribers =
     two_subscribers\<lparr>observed := observed two_subscribers @
        [Emit ''typing'' [JObj [(''thread_id'', JUndefined), (''user_id'', JUndefined),
           (''typing'', JUndefined), (''timestamp'', JUndefined)]],
         Called 7 ''typing'',
         ConsoleError ''Failed to parse WebSocket message:'' (Thrown ''boom'')]\<rparr>"
proof -
  have u: "getprop (JObj [(''type'', JStr ''poke'')]) ''type'' = Inr (JStr ''poke'') \<and>
      JStr ''poke'' \<notin> set discriminants"
    by (simp add: discriminants_def)
  have l: "listeners_of ''typing'' (listeners two_subscribers) =
      map (\<lambda>j. Subscriber j None) [] @ Subscriber 7 (Some (Thrown ''boom'')) # [Subscriber 8 None]"
    by (simp add: two_subscribers_eval listeners_of_def)
  have t: "getprop (JObj [(''type'', JStr ''typing'')]) ''type'' = Inr (JStr ''typing'')"
    by simp
  have f: "field (JObj [(''type'', JStr ''typing'')]) k = (if k = ''type'' then JStr ''typing'' else JUndefined)" for k
    by (simp add: field_def)
  show ?thesis
    using frame_errors_are_logged [of two_subscribers "JObj [(''type'', JStr ''poke'')]" "JStr ''poke''"
        "''typing''" "[]" 7 "Thrown ''boom''" "[Subscriber 8 None]" "[JNull]"] u l
      frame_errors_are_logged [of two_subscribers "JObj [(''type'', JStr ''typing'')]" "JStr ''poke''"
        "''typing''" "[]" 7 "Thrown ''boom''" "[Subscriber 8 None]" "[JNull]"] t
    by (simp add: f)
qed

text \<open>
  The exception is not caught subscriber by subscriber: the second subscriber of
  \<open>typing\<close> is not called for the frame on which the first one throws.
\<close>

theorem later_subscriber_skipped_counterexample:
  "listeners_of ''typing'' (listeners two_subscribers) =
     [Subscriber 7 (Some (Thrown ''boom'')), Subscriber 8 None] \<and>
   observed (step (Frame 0 typing_frame) two_subscribers) =
     observed two_subscribers @
       [Emit ''typing'' [JObj [(''thread_id'', JStr ''t1''), (''user_id'', JStr ''u1''),
          (''typing'', JBool True), (''timestamp'', JNum 9)]],
        Called 7 ''typing'',
        ConsoleError ''Failed to parse WebSocket message:'' (Thrown ''boom'')] \<and>
   Called 8 ''typing'' \<notin> set (observed (step (Frame 0 typing_frame) two_subscribers))"
  by (simp add: two_subscribers_eval opened_eval fresh_manager_def typing_frame_def ws_eval)

subsection \<open>Heartbeat\<close>

lemmas observe_fields [simp] = core_fields [OF core_basic(1)]

lemma emitted_updates [simp]:
  "emitted (s\<lparr>isConnecting := b\<rparr>) = emitted s" "emitted (s\<lparr>isConnected := b\<rparr>) = emitted s"
  "emitted (s\<lparr>phase := p\<rparr>) = emitted s" "emitted (s\<lparr>ws := w\<rparr>) = emitted s"
  "emitted (s\<lparr>heartbeatInterval := h\<rparr>) = emitted s" "emitted (s\<lparr>heartbeatTimeout := h\<rparr>) = emitted s"
  "emitted (s\<lparr>timers := ts\<rparr>) = emitted s" "emitted (s\<lparr>nextTimer := n\<rparr>) = emitted s"
  "emitted (s\<lparr>reconnectAttempts := n\<rparr>) = emitted s"
  by (simp_all add: emitted_def)

lemma emitted_connect_catch:
  "emitted (connect_catch error s) = emitted s @ [''error'']"
  by (simp add: connect_catch_def Let_def split: option.splits)

lemma emitted_connect:
  "\<not> isConnected s \<Longrightarrow> \<not> isConnecting s \<Longrightarrow>
   \<exists>rest. emitted (connect s) = emitted s @ ''connecting'' # rest"
  by (simp add: connect_def Let_def emitted_connect_catch split: option.splits)

lemma core_connect_catch:
  "core (connect_catch error s) = (core s)\<lparr>isConnecting := False\<rparr>"
proof -
  have "core (fst (emit ''error'' [JError error] (s\<lparr>isConnecting := False, phase := NoConnect\<rparr>))) =
      core (s\<lparr>isConnecting := False, phase := NoConnect\<rparr>)"
    by (rule core_emit)
  then show ?thesis
    by (simp add: connect_catch_def Let_def split: option.splits) (simp_all add: core_def)
qed





subsection \<open>Failure of connect\<close>

lemma in_flight_neutral [simp]:
  "in_flight (observe ob s) = in_flight s" "in_flight (clearTimer t s) = in_flight s"
  "in_flight (settle t p s) = in_flight s" "in_flight (removeListener n l s) = in_flight s"
  "in_flight (on n l s) = in_flight s" "in_flight (set_sock i st s) = in_flight s"
  "in_flight (snd (setTimer k ms s)) = in_flight s"
  "in_flight (fst (emit n a s)) = in_flight s" "in_flight (fst (client_emit n a s)) = in_flight s"
  "in_flight (fst (ws_send payload s)) = in_flight s"
  "in_flight (startHeartbeatTimeout s) = in_flight s" "in_flight (startHeartbeat s) = in_flight s"
  "in_flight (stopHeartbeat s) = in_flight s" "in_flight (handleHeartbeat m s) = in_flight s"
  "in_flight (scheduleReconnect s) = in_flight s"
  by (simp_all add: in_flight_def observe_def clearTimer_def settle_def removeListener_def on_def
      set_sock_def setTimer_def ws_send_def startHeartbeatTimeout_def startHeartbeat_def
      stopHeartbeat_def handleHeartbeat_def scheduleReconnect_def Let_def
      split: option.splits sock.splits)

lemma in_flight_resolve_auth [simp]: "in_flight (resolve_auth t r s) = in_flight s"
  by (simp add: in_flight_def resolve_auth_def split: connect_phase.splits)

lemma in_flight_seq:
  assumes "in_flight (fst r) = in_flight s" and "\<And>s1. in_flight (fst (f s1)) = in_flight s1"
  shows "in_flight (fst (seq r f)) = in_flight s"
  using assms by (simp add: fst_seq split: option.splits)

lemma in_flight_updates [simp]:
  "in_flight (s\<lparr>isConnected := b\<rparr>) = in_flight s" "in_flight (s\<lparr>ws := w\<rparr>) = in_flight s"
  "in_flight (s\<lparr>pendingMessages := pm\<rparr>) = in_flight s" "in_flight (s\<lparr>acks := a\<rparr>) = in_flight s"
  "in_flight (s\<lparr>clientListeners := cl\<rparr>) = in_flight s"
  "in_flight (s\<lparr>reconnectAttempts := k\<rparr>) = in_flight s"
  by (simp_all add: in_flight_def)

lemma in_flight_close_error [simp]:
  "in_flight (fst (handleWebSocketClose code reason s)) = in_flight s"
  "in_flight (fst (handleWebSocketError error s)) = in_flight s"
  by (simp_all add: handleWebSocketClose_def handleWebSocketError_def in_flight_seq)

lemma in_flight_frames [simp]:
  "in_flight (fst (handleIncomingMessage m s)) = in_flight s"
  "in_flight (fst (handleTypingIndicator m s)) = in_flight s"
  "in_flight (fst (handleReadReceipt m s)) = in_flight s"
  "in_flight (fst (handleOnlineStatus m s)) = in_flight s"
  "in_flight (fst (handleAcknowledgment m s)) = in_flight s"
  by (simp_all add: handleIncomingMessage_def messages_handleIncomingMessage_def
      handleTypingIndicator_def handleReadReceipt_def handleOnlineStatus_def
      handleAcknowledgment_def in_flight_seq Let_def split: sum.splits option.splits)

lemma in_flight_handleWebSocketMessage [simp]:
  "in_flight (handleWebSocketMessage frame s) = in_flight s"
  by (simp add: handleWebSocketMessage_def dispatch_frame_def Let_def
      split: raw.splits option.splits sum.splits)

lemma in_flight_connect_catch [simp]: "in_flight (connect_catch error s)"
  by (simp add: in_flight_def)

lemma in_flight_connect: "in_flight s \<Longrightarrow> in_flight (connect s)"
proof -
  assume a: "in_flight s"
  have "in_flight (fst (emit ''connecting'' [] (s\<lparr>isConnecting := True\<rparr>))\<lparr>phase := AwaitInfo\<rparr>)"
    by (simp add: in_flight_def)
  then show ?thesis
    using a by (simp add: connect_def Let_def split: option.splits)
qed

lemma in_flight_disconnect [simp]: "in_flight (disconnect s) = in_flight s"
proof (cases "isConnected s")
  case True
  define x where "x = (case ws (stopHeartbeat s) of
      Some i \<Rightarrow> (set_sock i Closed (stopHeartbeat s))\<lparr>ws := None\<rparr>
    | None \<Rightarrow> stopHeartbeat s)\<lparr>isConnected := False\<rparr>"
  define r where "r = seq (emit ''disconnect'' [] x)
      (emit ''disconnection'' [JObj [(''status'', JStr ''websocket_disconnected'')]])"
  have d: "disconnect s = (case snd r of
       Some error \<Rightarrow> observe (ConsoleError ''WebSocket disconnect error:'' error) (fst r)
     | None \<Rightarrow> fst r)"
    unfolding disconnect_def Let_def x_def r_def using True
    by (simp only: not_True_eq_False if_False simp_thms)
  have "in_flight (fst r) = in_flight x"
    unfolding r_def by (rule in_flight_seq) simp_all
  moreover have "in_flight x = in_flight s"
    by (simp add: x_def split: option.splits)
  ultimately show ?thesis
    by (simp add: d split: option.splits)
next
  case False
  then show ?thesis by (simp add: disconnect_def)
qed

lemma in_flight_sendMessage [simp]: "in_flight (fst (sendMessage d now m s)) = in_flight s"
  by (simp add: sendMessage_def Let_def split: option.splits)

lemma in_flight_connect_after_info:
  "in_flight s \<Longrightarrow> phase s = AwaitInfo \<Longrightarrow> in_flight (connect_after_info outcome s)"
  by (simp add: connect_after_info_def Let_def setTimer_def) (simp add: in_flight_def)

lemma in_flight_on_open: "in_flight s \<Longrightarrow> in_flight (on_open i s)"
proof -
  assume a: "in_flight s"
  let ?r = "emit ''open'' [] (set_sock i Open s)"
  have f: "in_flight (fst ?r)" using a by simp
  have "in_flight ((clearTimer t (fst ?r))\<lparr>phase := Resuming x\<rparr>)"
    if "phase (fst ?r) = AwaitOpen t j token" for t j token x
    using f that by (simp add: in_flight_def clearTimer_def)
  then show ?thesis
    using a f by (auto simp: on_open_def Let_def split: option.splits connect_phase.splits)
qed

lemma in_flight_on_error: "in_flight s \<Longrightarrow> in_flight (on_error i error s)"
proof -
  assume a: "in_flight s"
  let ?r = "handleWebSocketError error (set_sock i Closed s)"
  have f: "in_flight (fst ?r)" using a by simp
  have "in_flight ((clearTimer t (fst ?r))\<lparr>phase := Resuming x\<rparr>)"
    if "phase (fst ?r) = AwaitOpen t j token" for t j token x
    using f that by (simp add: in_flight_def clearTimer_def)
  then show ?thesis
    using a f by (auto simp: on_error_def Let_def split: option.splits connect_phase.splits)
qed

lemma in_flight_on_close: "in_flight s \<Longrightarrow> in_flight (on_close i code reason s)"
  by (simp add: on_close_def uncaught_def split: option.splits)

lemma in_flight_timer_callback: "in_flight s \<Longrightarrow> in_flight (timer_callback t kind now s)"
proof (cases kind)
  case OpenTimeout
  assume "in_flight s"
  then show ?thesis using OpenTimeout
    by (auto simp: timer_callback_def in_flight_def split: connect_phase.splits)
next
  case HeartbeatInterval
  assume "in_flight s"
  then show ?thesis using HeartbeatInterval
    by (simp add: timer_callback_def uncaught_def fst_seq split: option.splits)
next
  case HeartbeatTimeout
  assume "in_flight s"
  then show ?thesis using HeartbeatTimeout
    by (simp add: timer_callback_def in_flight_connect)
qed (simp_all add: timer_callback_def in_flight_connect)

lemma in_flight_on_timer: "in_flight s \<Longrightarrow> in_flight (on_timer t now s)"
  by (simp add: on_timer_def in_flight_timer_callback split: option.splits)

lemma in_flight_handle: "in_flight s \<Longrightarrow> in_flight (handle ev s)"
  by (cases ev)
     (simp_all add: in_flight_connect in_flight_connect_after_info in_flight_on_open
       in_flight_on_error in_flight_on_close in_flight_on_timer)

lemma in_flight_connect_after_open:
  "in_flight s \<Longrightarrow> phase s \<noteq> NoConnect \<Longrightarrow> in_flight (connect_after_open token s)"
  by (simp add: connect_after_open_def Let_def split: option.splits)
     (simp add: in_flight_def ws_send_def setTimer_def on_def observe_def split: option.splits sock.splits)

lemma in_flight_connect_finish:
  "phase s = Resuming r \<Longrightarrow> in_flight (connect_finish s)"
proof -
  assume p: "phase s = Resuming r"
  let ?x = "(startHeartbeat s)\<lparr>isConnected := True, isConnecting := False, reconnectAttempts := 0\<rparr>"
  let ?r = "seq (emit ''connect'' [] ?x)
      (emit ''connection'' [JObj [(''status'', JStr ''websocket_connected'')]])"
  have c: "core (fst ?r) = core ?x" by (rule core_seq) simp_all
  have "\<not> isConnecting (fst ?r)" using core_fields(2) [OF c] by simp
  then have "in_flight ((fst ?r)\<lparr>phase := NoConnect\<rparr>)" by (simp add: in_flight_def)
  then show ?thesis
    by (simp add: connect_finish_def Let_def split: option.splits)
qed

lemma in_flight_drain: "in_flight s \<Longrightarrow> in_flight (drain s)"
  by (auto simp: drain_def in_flight_connect_after_open in_flight_connect_finish
      split: connect_phase.splits resumption.splits)

lemma in_flight_step: "in_flight s \<Longrightarrow> in_flight (step ev s)"
  by (simp add: step_def in_flight_drain in_flight_handle)

lemma in_flight_run: "in_flight s \<Longrightarrow> in_flight (run evs s)"
  by (induction evs arbitrary: s) (simp_all add: in_flight_step)

lemma in_flight_awaiting: "in_flight s \<Longrightarrow> quiescent s \<Longrightarrow> isConnecting s = awaiting (phase s)"
  by (cases "phase s") (simp_all add: in_flight_def quiescent_def)


lemma quiescent_connect_catch [simp]: "quiescent (connect_catch error s)"
  by (simp add: quiescent_def)

lemma isConnected_connect_catch [simp]: "isConnected (connect_catch error s) = isConnected s"
proof -
  have "isConnected (core (connect_catch error s)) = isConnected (core s)"
    by (simp add: core_connect_catch)
  then show ?thesis by (simp add: core_def)
qed

lemma connect_catch_phase [simp]: "connect_catch error (s\<lparr>phase := p\<rparr>) = connect_catch error s"
  by (simp add: connect_catch_def)

lemma observed_connect_catch:
  "observed (connect_catch error s) =
     observed (fst (emit ''error'' [JError error] (s\<lparr>isConnecting := False, phase := NoConnect\<rparr>))) @
     [ConnectRejected
        (case snd (emit ''error'' [JError error] (s\<lparr>isConnecting := False, phase := NoConnect\<rparr>)) of
           Some thrown \<Rightarrow> thrown
         | None \<Rightarrow> NetErr (''WebSocket connection failed: '' @ message_of error))]"
  by (simp add: connect_catch_def Let_def observe_def split: option.splits)

text \<open>
  Claim C10, as amended. The \<open>catch\<close> block of \<open>connect\<close> resets the connecting flag
  before anything else, ends the call, and rejects it: with the network-classified error
  \<open>WebSocket connection failed: ...\<close> when the emission of the \<open>error\<close> event returns
  normally. Every failure reaches this block: the failure of a wait that the loop
  resumes, an invalid URL when the transport is created, the timeout of the wait for the
  transport, a transport error during that wait, and the timeout of the wait for the
  authentication. After it a call of \<open>connect\<close> on a manager that is not connected passes
  the guard again. In every state that a new manager reaches, the connecting flag is set
  exactly while a call of \<open>connect\<close> is suspended at one of its waits.
\<close>

theorem failed_connect_resets_flag:
  "\<not> isConnecting (connect_catch error s) \<and>
   phase (connect_catch error s) = NoConnect \<and>
   (\<exists>thrown. last (observed (connect_catch error s)) = ConnectRejected thrown) \<and>
   (snd (emit ''error'' [JError error] (s\<lparr>isConnecting := False, phase := NoConnect\<rparr>)) = None \<longrightarrow>
      last (observed (connect_catch error s)) =
        ConnectRejected (NetErr (''WebSocket connection failed: '' @ message_of error)) \<and>
      category_of (NetErr (''WebSocket connection failed: '' @ message_of error)) = Some ''network'') \<and>
   drain (s\<lparr>phase := Resuming (AfterFailure error)\<rparr>) = connect_catch error s \<and>
   (phase s = AwaitInfo \<and> \<not> valid_ws_url (field (getConnectionInfo outcome s) ''url'') \<longrightarrow>
      step (ConnectionInfo outcome) s = connect_catch (SyntaxErr ''Invalid URL'') s) \<and>
   (phase s = AwaitOpen t i token \<and> map_of (timers s) t = Some (OpenTimeout, ms) \<longrightarrow>
      step (TimerFires t now) s =
        connect_catch (NetErr ''WebSocket connection timeout'') (clearTimer t s)) \<and>
   (phase s = AwaitOpen t i token \<and> i < length (sockets s) \<and>
    snd (handleWebSocketError error (set_sock i Closed s)) = None \<longrightarrow>
      step (SocketError i error) s =
        connect_catch error (clearTimer t (fst (handleWebSocketError error (set_sock i Closed s))))) \<and>
   (phase s = AwaitAuth t \<and> map_of (timers s) t = Some (AuthTimeout, ms) \<longrightarrow>
      step (TimerFires t now) s =
        connect_catch (NetErr ''Authentication timeout'') (clearTimer t s)) \<and>
   (\<not> isConnected s \<longrightarrow>
      (\<exists>rest. emitted (connect (connect_catch error s)) =
         emitted (connect_catch error s) @ ''connecting'' # rest)) \<and>
   isConnecting (run evs (new_WebSocketManager auto tok device client)) =
     awaiting (phase (run evs (new_WebSocketManager auto tok device client)))"
proof -
  have a: "\<not> isConnecting (connect_catch error s)" "phase (connect_catch error s) = NoConnect"
    by simp_all
  have b: "\<exists>thrown. last (observed (connect_catch error s)) = ConnectRejected thrown"
    by (simp add: observed_connect_catch)
  have c: "snd (emit ''error'' [JError error] (s\<lparr>isConnecting := False, phase := NoConnect\<rparr>)) = None \<longrightarrow>
      last (observed (connect_catch error s)) =
        ConnectRejected (NetErr (''WebSocket connection failed: '' @ message_of error)) \<and>
      category_of (NetErr (''WebSocket connection failed: '' @ message_of error)) = Some ''network''"
    by (simp add: observed_connect_catch)
  have d: "drain (s\<lparr>phase := Resuming (AfterFailure error)\<rparr>) = connect_catch error s"
    by (simp add: drain_def)
  have e: "phase s = AwaitInfo \<and> \<not> valid_ws_url (field (getConnectionInfo outcome s) ''url'') \<longrightarrow>
      step (ConnectionInfo outcome) s = connect_catch (SyntaxErr ''Invalid URL'') s"
    by (simp add: step_def connect_after_info_def Let_def)
  have f: "phase s = AwaitOpen t i token \<and> map_of (timers s) t = Some (OpenTimeout, ms) \<longrightarrow>
      step (TimerFires t now) s =
        connect_catch (NetErr ''WebSocket connection timeout'') (clearTimer t s)"
    by (simp add: step_def on_timer_def timer_callback_def drain_def)
  have g: "phase s = AwaitOpen t i token \<and> i < length (sockets s) \<and>
    snd (handleWebSocketError error (set_sock i Closed s)) = None \<longrightarrow>
      step (SocketError i error) s =
        connect_catch error (clearTimer t (fst (handleWebSocketError error (set_sock i Closed s))))"
  proof (intro impI, elim conjE)
    assume p: "phase s = AwaitOpen t i token" and i: "i < length (sockets s)"
      and n: "snd (handleWebSocketError error (set_sock i Closed s)) = None"
    let ?x = "set_sock i Closed s"
    have ne: "snd (emit ''error'' [JError error] ?x) = None"
      using n by (simp add: handleWebSocketError_def seq_def split: option.splits)
    have "phase (fst (emit ''error'' [JError error] ?x)) = phase ?x"
      by (rule phase_emit_fixed) (simp add: p)
    then have "phase (fst (handleWebSocketError error ?x)) = AwaitOpen t i token"
      using ne p
      by (simp add: handleWebSocketError_def seq_def scheduleReconnect_def setTimer_def Let_def
          split: option.splits)
    then show "step (SocketError i error) s =
        connect_catch error (clearTimer t (fst (handleWebSocketError error ?x)))"
      using i n by (simp add: step_def on_error_def Let_def drain_def)
  qed
  have h: "phase s = AwaitAuth t \<and> map_of (timers s) t = Some (AuthTimeout, ms) \<longrightarrow>
      step (TimerFires t now) s =
        connect_catch (NetErr ''Authentication timeout'') (clearTimer t s)"
    by (simp add: step_def on_timer_def timer_callback_def resolve_auth_def drain_def)
  have k: "\<not> isConnected s \<longrightarrow>
      (\<exists>rest. emitted (connect (connect_catch error s)) =
         emitted (connect_catch error s) @ ''connecting'' # rest)"
  proof
    assume "\<not> isConnected s"
    then have "\<not> isConnected (connect_catch error s)" by simp
    then show "\<exists>rest. emitted (connect (connect_catch error s)) =
         emitted (connect_catch error s) @ ''connecting'' # rest"
      by (intro emitted_connect) simp_all
  qed
  have l: "isConnecting (run evs (new_WebSocketManager auto tok device client)) =
     awaiting (phase (run evs (new_WebSocketManager auto tok device client)))"
    by (intro in_flight_awaiting in_flight_run quiescent_run)
       (simp_all add: in_flight_def quiescent_def new_WebSocketManager_def)
  from a b c d e f g h k l show ?thesis by blast
qed


theorem failed_connect_resets_flag_witness:
  "step (TimerFires 1 10000) authenticating =
     connect_catch (NetErr ''Authentication timeout'') (clearTimer 1 authenticating) \<and>
   \<not> isConnecting (step (TimerFires 1 10000) authenticating) \<and>
   last (observed (step (TimerFires 1 10000) authenticating)) =
     ConnectRejected (NetErr ''WebSocket connection failed: Authentication timeout'') \<and>
   category_of (NetErr (''WebSocket connection failed: '' @
       message_of (NetErr ''Authentication timeout''))) = Some ''network'' \<and>
   (\<exists>rest. emitted (connect (step (TimerFires 1 10000) authenticating)) =
      emitted (step (TimerFires 1 10000) authenticating) @ ''connecting'' # rest)"
proof -
  let ?x = "clearTimer 1 authenticating"
  let ?e = "NetErr ''Authentication timeout''"
  have p: "phase authenticating = AwaitAuth 1 \<and>
      map_of (timers authenticating) 1 = Some (AuthTimeout, 10000)"
    by (simp add: authenticating_eval)
  have n: "snd (emit ''error'' [JError ?e] (?x\<lparr>isConnecting := False, phase := NoConnect\<rparr>)) = None"
    by (simp add: authenticating_eval fresh_manager_def ws_eval)
  have c: "\<not> isConnected ?x"
    by (simp add: authenticating_eval fresh_manager_def new_WebSocketManager_def clearTimer_def)
  show ?thesis
    using failed_connect_resets_flag [of ?e authenticating PostRejected 1 0 JNull 10000 10000 "[]"
        True JNull JNull JNull] p
      failed_connect_resets_flag [of ?e ?x PostRejected 1 0 JNull 10000 10000 "[]"
        True JNull JNull JNull] n c
    by simp
qed

text \<open>
  As stated the claim fails on the classification of the rethrown failure. On a manager
  without a subscriber of \<open>error\<close>, the emission of \<open>error\<close> in the \<open>catch\<close> block throws
  the original failure, and the statement that wraps it in a \<open>NetworkError\<close> is not
  reached: the invalid URL is rethrown as the transport's own error, which has no
  category. The connecting flag is reset all the same.
\<close>

theorem raw_failure_rethrown_counterexample:
  "observed (run [Connect, ConnectionInfo bad_info] fresh_manager) =
     [Emit ''connecting'' [], Emit ''error'' [JError (SyntaxErr ''Invalid URL'')],
      ConnectRejected (SyntaxErr ''Invalid URL'')] \<and>
   category_of (SyntaxErr ''Invalid URL'') = None \<and>
   \<not> isConnecting (run [Connect, ConnectionInfo bad_info] fresh_manager)"
  by (simp add: fresh_manager_def bad_info_def ws_eval)

end
